theory Spec2Isabelle
  imports Main "HOL-Library.Word"
begin

unbundle bit_operations_syntax

section \<open>Conventions\<close>

text \<open>
  The development embeds the GL command queue of \<^verbatim>\<open>gsk/next\<close>: the attachment
  state (\<^verbatim>\<open>gskglattachmentstate.c\<close>), the growable buffer (\<^verbatim>\<open>gskglbuffer.c\<close>), the
  uniform state (\<^verbatim>\<open>gskgluniformstate.c\<close>) and the command queue
  (\<^verbatim>\<open>gskglcommandqueue.c\<close>, the revision with \<^verbatim>\<open>begin_draw\<close>/\<^verbatim>\<open>end_draw\<close> and the
  \<^verbatim>\<open>in_draw\<close> bit field).

  C objects are records that are passed in and handed back. \<^verbatim>\<open>guint\<close> values are
  natural numbers; where the C arithmetic can wrap, the result goes through \<open>guint\<close>
  (reduction modulo \<open>2 ^ 32\<close>), and where a bit field truncates, the \<open>mod\<close> is
  written out. The three ways a call can end early are values of
  \<open>error\<close>:
  \<^item> \<open>Critical\<close>: \<^verbatim>\<open>g_critical\<close> or a failed \<^verbatim>\<open>g_return_if_fail\<close>; a message is
    logged and the call returns having changed nothing;
  \<^item> \<open>AssertionFailed\<close>: a failed \<^verbatim>\<open>g_assert\<close>, which aborts;
  \<^item> \<open>OutOfBounds\<close>: the C code would read or write outside an array (undefined
    behaviour).
\<close>

datatype error = Critical | AssertionFailed | OutOfBounds

type_synonym byte = "8 word"

definition guint :: "nat \<Rightarrow> nat" where
  "guint n = n mod 2 ^ 32"

section \<open>The GL context\<close>

definition GL_TEXTURE_1D :: nat where "GL_TEXTURE_1D = 0x0DE0"
definition GL_TEXTURE_2D :: nat where "GL_TEXTURE_2D = 0x0DE1"
definition GL_TEXTURE_3D :: nat where "GL_TEXTURE_3D = 0x806F"
definition GL_TEXTURE0 :: nat where "GL_TEXTURE0 = 0x84C0"
definition GL_TEXTURE16 :: nat where "GL_TEXTURE16 = 0x84D0"
definition GL_FRAMEBUFFER :: nat where "GL_FRAMEBUFFER = 0x8D40"
definition GL_ARRAY_BUFFER :: nat where "GL_ARRAY_BUFFER = 0x8892"
definition GL_MAX_UNIFORM_LOCATIONS :: nat where "GL_MAX_UNIFORM_LOCATIONS = 0x826E"

text \<open>Every GL entry point the embedded functions call, as an entry of the call log.\<close>

datatype gl_call =
    GlBindFramebuffer nat nat
  | GlActiveTexture nat
  | GlBindTexture nat nat
  | GlGenTextures nat
  | GlTexParameteri nat nat nat
  | GlTexImage2D nat nat int int nat
  | GlGenBuffers nat
  | GlBindBuffer nat nat
  | GlBufferData nat nat
  | GlBufferSubData nat nat "byte list"
  | GlDeleteBuffers nat
  | GlDeleteProgram nat
  | GlBindVertexArray nat
  | GlUseProgram nat
  | GdkMakeCurrent

text \<open>
  The part of the driver's state that the calls above read or write: the bound
  framebuffer, the active texture unit, the texture bound to each (unit, target), the
  buffer bound to each target, the data store of each buffer object, the names the
  driver hands out on \<^verbatim>\<open>glGen*\<close> (\<open>gl_names\<close> is the driver's choice, \<open>gl_generated\<close>
  counts the names handed out so far), and the log of calls, oldest first.
\<close>

record gl_context =
  gl_framebuffer :: nat
  gl_active_texture :: nat
  gl_texture_binding :: "nat \<Rightarrow> nat \<Rightarrow> nat"
  gl_buffer_binding :: "nat \<Rightarrow> nat"
  gl_buffer_store :: "nat \<Rightarrow> byte list option"
  gl_names :: "nat \<Rightarrow> nat"
  gl_generated :: nat
  gl_calls :: "gl_call list"

definition gl_log :: "gl_call \<Rightarrow> gl_context \<Rightarrow> gl_context" where
  "gl_log c gl = gl\<lparr>gl_calls := gl_calls gl @ [c]\<rparr>"

definition glBindFramebuffer :: "nat \<Rightarrow> nat \<Rightarrow> gl_context \<Rightarrow> gl_context" where
  "glBindFramebuffer target fb gl =
     gl_log (GlBindFramebuffer target fb) (gl\<lparr>gl_framebuffer := fb\<rparr>)"

definition glActiveTexture :: "nat \<Rightarrow> gl_context \<Rightarrow> gl_context" where
  "glActiveTexture unit gl = gl_log (GlActiveTexture unit) (gl\<lparr>gl_active_texture := unit\<rparr>)"

definition glBindTexture :: "nat \<Rightarrow> nat \<Rightarrow> gl_context \<Rightarrow> gl_context" where
  "glBindTexture target tex gl =
     gl_log (GlBindTexture target tex)
       (gl\<lparr>gl_texture_binding :=
            (gl_texture_binding gl)
              (gl_active_texture gl := (gl_texture_binding gl (gl_active_texture gl))(target := tex))\<rparr>)"

text \<open>A fresh context: nothing bound, no buffer allocated; the driver hands out 1, 2, 3, ...\<close>

definition gl_initial :: gl_context where
  "gl_initial =
     \<lparr>gl_framebuffer = 0, gl_active_texture = GL_TEXTURE0,
      gl_texture_binding = (\<lambda>unit target. 0), gl_buffer_binding = (\<lambda>target. 0),
      gl_buffer_store = (\<lambda>name. None), gl_names = Suc, gl_generated = 0, gl_calls = []\<rparr>"

section \<open>Attachment state (gskglattachmentstate.c)\<close>

record GskGLBindTexture =
  bt_changed :: bool
  bt_initial :: bool
  bt_target :: nat
  bt_texture :: nat
  bt_id :: nat

record GskGLBindFramebuffer =
  bf_changed :: bool
  bf_id :: nat

record GskGLAttachmentState =
  fbo :: GskGLBindFramebuffer
  textures :: "GskGLBindTexture list"
  has_texture_change :: bool

text \<open>
  Modelled from the spec: the struct is declared in \<^verbatim>\<open>gskglattachmentstateprivate.h\<close>,
  which is not among the sources. Its fields are the ones the functions below use; the
  length of \<^verbatim>\<open>textures\<close> is the 16 of the spec's data model. No theorem below depends
  on the number: \<open>textures\<close> is a list of any length.
\<close>

definition N_TEXTURES :: nat where "N_TEXTURES = 16"

definition gsk_gl_attachment_state_new :: GskGLAttachmentState where
  "gsk_gl_attachment_state_new =
     \<lparr>fbo = \<lparr>bf_changed = False, bf_id = 0\<rparr>,
      textures = replicate N_TEXTURES
        \<lparr>bt_changed = False, bt_initial = True, bt_target = GL_TEXTURE_2D,
         bt_texture = GL_TEXTURE0, bt_id = 0\<rparr>,
      has_texture_change = False\<rparr>"

definition gsk_gl_attachment_state_bind_texture ::
  "GskGLAttachmentState \<Rightarrow> nat \<Rightarrow> nat \<Rightarrow> nat \<Rightarrow> error + GskGLAttachmentState" where
  "gsk_gl_attachment_state_bind_texture self target texture ident =
     (if \<not> (target = GL_TEXTURE_1D \<or> target = GL_TEXTURE_2D \<or> target = GL_TEXTURE_3D)
        then Inl AssertionFailed
      else if \<not> (texture \<ge> GL_TEXTURE0 \<and> texture \<le> GL_TEXTURE16) then Inl AssertionFailed
      else if \<not> (texture - GL_TEXTURE0 < length (textures self)) then Inl OutOfBounds
      else
        let attach = textures self ! (texture - GL_TEXTURE0) in
        if bt_target attach \<noteq> target \<or> bt_texture attach \<noteq> texture \<or> bt_id attach \<noteq> ident
        then Inr (self\<lparr>textures := (textures self)
                      [texture - GL_TEXTURE0 :=
                         attach\<lparr>bt_target := target, bt_texture := texture, bt_id := ident,
                                bt_changed := True, bt_initial := False\<rparr>],
                    has_texture_change := True\<rparr>)
        else Inr self)"

definition gsk_gl_attachment_state_bind_framebuffer ::
  "GskGLAttachmentState \<Rightarrow> nat \<Rightarrow> GskGLAttachmentState" where
  "gsk_gl_attachment_state_bind_framebuffer self ident =
     (if bf_id (fbo self) \<noteq> ident
      then self\<lparr>fbo := (fbo self)\<lparr>bf_id := ident, bf_changed := True\<rparr>\<rparr>
      else self)"

text \<open>\<^verbatim>\<open>save\<close> copies the struct and clears every changed flag of the copy.\<close>

definition gsk_gl_attachment_state_save :: "GskGLAttachmentState \<Rightarrow> GskGLAttachmentState" where
  "gsk_gl_attachment_state_save self =
     self\<lparr>fbo := (fbo self)\<lparr>bf_changed := False\<rparr>,
          textures := map (\<lambda>t. t\<lparr>bt_changed := False\<rparr>) (textures self)\<rparr>"

text \<open>
  The loop of \<^verbatim>\<open>restore\<close> over the texture units, from unit \<open>i\<close> on: a unit still
  flagged \<open>initial\<close> is skipped, any other is made active and its texture is bound.
\<close>

fun restore_textures :: "nat \<Rightarrow> GskGLBindTexture list \<Rightarrow> gl_context \<Rightarrow> gl_context" where
  "restore_textures i [] gl = gl"
| "restore_textures i (t # ts) gl =
     restore_textures (Suc i) ts
       (if \<not> bt_initial t
        then glBindTexture (bt_target t) (bt_id t) (glActiveTexture (GL_TEXTURE0 + i) gl)
        else gl)"

definition gsk_gl_attachment_state_restore :: "GskGLAttachmentState \<Rightarrow> gl_context \<Rightarrow> gl_context" where
  "gsk_gl_attachment_state_restore self gl =
     restore_textures 0 (textures self) (glBindFramebuffer GL_FRAMEBUFFER (bf_id (fbo self)) gl)"

section \<open>Buffer objects of the GL context\<close>

text \<open>
  \<^verbatim>\<open>glGenBuffers\<close> hands out the driver's next name. \<^verbatim>\<open>glBufferData\<close> with a \<^verbatim>\<open>NULL\<close>
  pointer gives the bound buffer a data store of the given size whose contents are
  undefined: they are read from \<open>junk\<close>, a parameter that stands for whatever the memory
  holds. \<^verbatim>\<open>glBufferSubData\<close> replaces bytes of the bound buffer's store and is refused by
  the driver (an error code, no change) when the range does not lie inside the store.
\<close>

definition glGenBuffers :: "gl_context \<Rightarrow> nat \<times> gl_context" where
  "glGenBuffers gl =
     (gl_names gl (gl_generated gl),
      gl_log (GlGenBuffers (gl_names gl (gl_generated gl)))
        (gl\<lparr>gl_generated := Suc (gl_generated gl)\<rparr>))"

definition glBindBuffer :: "nat \<Rightarrow> nat \<Rightarrow> gl_context \<Rightarrow> gl_context" where
  "glBindBuffer target name gl =
     gl_log (GlBindBuffer target name) (gl\<lparr>gl_buffer_binding := (gl_buffer_binding gl)(target := name)\<rparr>)"

definition glBufferData :: "(nat \<Rightarrow> byte) \<Rightarrow> nat \<Rightarrow> nat \<Rightarrow> gl_context \<Rightarrow> gl_context" where
  "glBufferData junk target sz gl =
     gl_log (GlBufferData target sz)
       (if gl_buffer_binding gl target = 0 then gl
        else gl\<lparr>gl_buffer_store :=
                  (gl_buffer_store gl)(gl_buffer_binding gl target := Some (map junk [0..<sz]))\<rparr>)"

definition glBufferSubData :: "nat \<Rightarrow> nat \<Rightarrow> nat \<Rightarrow> byte list \<Rightarrow> gl_context \<Rightarrow> gl_context" where
  "glBufferSubData target offset sz bytes gl =
     gl_log (GlBufferSubData target offset (take sz bytes))
       (case gl_buffer_store gl (gl_buffer_binding gl target) of
          None \<Rightarrow> gl
        | Some store \<Rightarrow>
            if gl_buffer_binding gl target = 0 \<or> length store < offset + sz then gl
            else gl\<lparr>gl_buffer_store :=
                      (gl_buffer_store gl)
                        (gl_buffer_binding gl target :=
                           Some (take offset store @ take sz bytes @ drop (offset + sz) store))\<rparr>)"

definition glDeleteBuffers :: "nat \<Rightarrow> gl_context \<Rightarrow> gl_context" where
  "glDeleteBuffers name gl =
     gl_log (GlDeleteBuffers name)
       (if name = 0 then gl
        else gl\<lparr>gl_buffer_store := (gl_buffer_store gl)(name := None),
                gl_buffer_binding :=
                  (\<lambda>target. if gl_buffer_binding gl target = name then 0
                            else gl_buffer_binding gl target)\<rparr>)"

section \<open>GLib arrays\<close>

text \<open>
  A \<^verbatim>\<open>GArray\<close> as the buffer uses it (not zero-terminated, not cleared): \<open>ga_data\<close> is
  the allocated storage, so its length is the capacity in bytes; the first
  \<open>ga_len * ga_elt_size\<close> bytes are the elements. GLib is a library outside this
  repository; the three functions below follow its documentation: growing keeps the old
  elements, leaves the new ones uninitialised (\<open>junk\<close>), and enlarges the storage to the
  next power of two; shrinking only lowers the length.
\<close>

record GArray =
  ga_data :: "byte list"
  ga_len :: nat
  ga_elt_size :: nat

function g_nearest_pow_from :: "nat \<Rightarrow> nat \<Rightarrow> nat" where
  "g_nearest_pow_from n num =
     (if n < num \<and> 0 < n then g_nearest_pow_from (2 * n) num else n)"
  by pat_completeness auto
termination
  by (relation "measure (\<lambda>(n, num). num - n)") auto

declare g_nearest_pow_from.simps [simp del]

definition g_nearest_pow :: "nat \<Rightarrow> nat" where
  "g_nearest_pow num = g_nearest_pow_from 1 num"

definition g_array_maybe_expand :: "(nat \<Rightarrow> byte) \<Rightarrow> GArray \<Rightarrow> nat \<Rightarrow> GArray" where
  "g_array_maybe_expand junk array n =
     (let want_alloc = (ga_len array + n) * ga_elt_size array in
      if want_alloc > length (ga_data array)
      then array\<lparr>ga_data := ga_data array @
                    map junk [length (ga_data array) ..< max (g_nearest_pow want_alloc) 16]\<rparr>
      else array)"

definition g_array_sized_new :: "(nat \<Rightarrow> byte) \<Rightarrow> nat \<Rightarrow> nat \<Rightarrow> GArray" where
  "g_array_sized_new junk element_size reserved_size =
     (let array = \<lparr>ga_data = [], ga_len = 0, ga_elt_size = element_size\<rparr> in
      if reserved_size \<noteq> 0 then g_array_maybe_expand junk array reserved_size else array)"

definition g_array_set_size :: "(nat \<Rightarrow> byte) \<Rightarrow> GArray \<Rightarrow> nat \<Rightarrow> GArray" where
  "g_array_set_size junk array n =
     (if n > ga_len array
      then (g_array_maybe_expand junk array (n - ga_len array))\<lparr>ga_len := n\<rparr>
      else array\<lparr>ga_len := n\<rparr>)"

text \<open>
  What a caller does with a pointer into the storage: \<^verbatim>\<open>memcpy (dest, src, n)\<close>, with
  \<open>dest\<close> the byte position inside the storage.
\<close>

definition memcpy_into :: "GArray \<Rightarrow> nat \<Rightarrow> byte list \<Rightarrow> error + GArray" where
  "memcpy_into array dest bytes =
     (if dest + length bytes \<le> length (ga_data array)
      then Inr (array\<lparr>ga_data := take dest (ga_data array) @ bytes
                                   @ drop (dest + length bytes) (ga_data array)\<rparr>)
      else Inl OutOfBounds)"

section \<open>Growable buffer (gskglbuffer.c)\<close>

definition N_BUFFERS :: nat where "N_BUFFERS = 2"
definition RESERVED_SIZE :: nat where "RESERVED_SIZE = 1024"

record GskGLBufferShadow =
  sh_id :: nat
  size_on_gpu :: nat

record GskGLBuffer =
  buf_buffer :: GArray
  buf_shadows :: "GskGLBufferShadow list"
  buf_target :: nat
  buf_current :: nat

definition gsk_gl_buffer_shadow_init ::
  "(nat \<Rightarrow> byte) \<Rightarrow> nat \<Rightarrow> nat \<Rightarrow> nat \<Rightarrow> gl_context \<Rightarrow> GskGLBufferShadow \<times> gl_context" where
  "gsk_gl_buffer_shadow_init junk target element_size reserved_size gl =
     (let (ident, gl1) = glGenBuffers gl;
          gl2 = glBindBuffer target ident gl1;
          gl3 = glBufferData junk target (guint (element_size * reserved_size)) gl2;
          gl4 = glBindBuffer target 0 gl3
      in (\<lparr>sh_id = ident, size_on_gpu = guint (element_size * reserved_size)\<rparr>, gl4))"

definition gsk_gl_buffer_shadow_submit ::
  "(nat \<Rightarrow> byte) \<Rightarrow> GskGLBufferShadow \<Rightarrow> nat \<Rightarrow> GArray \<Rightarrow> gl_context
     \<Rightarrow> GskGLBufferShadow \<times> gl_context" where
  "gsk_gl_buffer_shadow_submit junk shadow target buffer gl =
     (let to_upload = guint (ga_len buffer * ga_elt_size buffer) in
      if to_upload > size_on_gpu shadow
      then
        let new_size = guint ((to_upload - to_upload mod 4096) + 4 * 4096);
            gl1 = glBindBuffer target 0 gl;
            gl2 = glDeleteBuffers (sh_id shadow) gl1;
            (ident, gl3) = glGenBuffers gl2;
            gl4 = glBindBuffer target ident gl3;
            gl5 = glBufferData junk target new_size gl4;
            gl6 = glBufferSubData target 0 to_upload (ga_data buffer) gl5
        in (shadow\<lparr>sh_id := ident, size_on_gpu := new_size\<rparr>, gl6)
      else
        let gl1 = glBindBuffer target (sh_id shadow) gl;
            gl2 = glBufferSubData target 0 to_upload (ga_data buffer) gl1
        in (shadow, gl2))"

text \<open>
  \<^verbatim>\<open>gsk_gl_buffer_new\<close> generates one buffer name that it never uses, then the host
  array and the two shadows.
\<close>

definition gsk_gl_buffer_new ::
  "(nat \<Rightarrow> byte) \<Rightarrow> nat \<Rightarrow> nat \<Rightarrow> gl_context \<Rightarrow> GskGLBuffer \<times> gl_context" where
  "gsk_gl_buffer_new junk target element_size gl =
     (let (ident, gl1) = glGenBuffers gl;
          array = g_array_sized_new junk element_size RESERVED_SIZE;
          (shadow0, gl2) = gsk_gl_buffer_shadow_init junk target element_size RESERVED_SIZE gl1;
          (shadow1, gl3) = gsk_gl_buffer_shadow_init junk target element_size RESERVED_SIZE gl2
      in (\<lparr>buf_buffer = array, buf_shadows = [shadow0, shadow1], buf_target = target,
           buf_current = 0\<rparr>, gl3))"

definition gsk_gl_buffer_submit ::
  "(nat \<Rightarrow> byte) \<Rightarrow> GskGLBuffer \<Rightarrow> gl_context \<Rightarrow> error + GskGLBuffer \<times> gl_context" where
  "gsk_gl_buffer_submit junk buffer gl =
     (if \<not> buf_current buffer < length (buf_shadows buffer) then Inl OutOfBounds
      else
        let (shadow, gl1) =
              gsk_gl_buffer_shadow_submit junk (buf_shadows buffer ! buf_current buffer)
                (buf_target buffer) (buf_buffer buffer) gl
        in Inr (buffer\<lparr>buf_shadows := (buf_shadows buffer)[buf_current buffer := shadow],
                       buf_current := (buf_current buffer + 1) mod N_BUFFERS,
                       buf_buffer := (buf_buffer buffer)\<lparr>ga_len := 0\<rparr>\<rparr>, gl1))"

text \<open>
  \<^verbatim>\<open>advance\<close> returns the pointer (here: the byte position in the storage) and, through
  \<^verbatim>\<open>*offset\<close>, the old length; the third component is the buffer afterwards.
\<close>

definition gsk_gl_buffer_advance ::
  "(nat \<Rightarrow> byte) \<Rightarrow> GskGLBuffer \<Rightarrow> nat \<Rightarrow> nat \<times> nat \<times> GskGLBuffer" where
  "gsk_gl_buffer_advance junk buffer count =
     (let offset = ga_len (buf_buffer buffer);
          array = g_array_set_size junk (buf_buffer buffer) (guint (offset + count))
      in (guint (offset * ga_elt_size array), offset, buffer\<lparr>buf_buffer := array\<rparr>))"

text \<open>
  Modelled from the spec: \<^verbatim>\<open>gsk_gl_buffer_get_offset\<close> is called by \<^verbatim>\<open>begin_draw\<close> but
  is not defined in the \<^verbatim>\<open>gskglbuffer.c\<close> among the sources; it is taken to return the
  offset the next \<^verbatim>\<open>advance\<close> would return, the current length of the host array.
\<close>

definition gsk_gl_buffer_get_offset :: "GskGLBuffer \<Rightarrow> nat" where
  "gsk_gl_buffer_get_offset buffer = ga_len (buf_buffer buffer)"

section \<open>Uniform state (gskgluniformstate.c)\<close>

definition GSK_GL_UNIFORM_FORMAT_1F :: nat where "GSK_GL_UNIFORM_FORMAT_1F = 1"
definition GSK_GL_UNIFORM_FORMAT_2F :: nat where "GSK_GL_UNIFORM_FORMAT_2F = 2"
definition GSK_GL_UNIFORM_FORMAT_3F :: nat where "GSK_GL_UNIFORM_FORMAT_3F = 3"
definition GSK_GL_UNIFORM_FORMAT_4F :: nat where "GSK_GL_UNIFORM_FORMAT_4F = 4"
definition GSK_GL_UNIFORM_FORMAT_1FV :: nat where "GSK_GL_UNIFORM_FORMAT_1FV = 5"
definition GSK_GL_UNIFORM_FORMAT_2FV :: nat where "GSK_GL_UNIFORM_FORMAT_2FV = 6"
definition GSK_GL_UNIFORM_FORMAT_3FV :: nat where "GSK_GL_UNIFORM_FORMAT_3FV = 7"
definition GSK_GL_UNIFORM_FORMAT_4FV :: nat where "GSK_GL_UNIFORM_FORMAT_4FV = 8"
definition GSK_GL_UNIFORM_FORMAT_1I :: nat where "GSK_GL_UNIFORM_FORMAT_1I = 9"
definition GSK_GL_UNIFORM_FORMAT_2I :: nat where "GSK_GL_UNIFORM_FORMAT_2I = 10"
definition GSK_GL_UNIFORM_FORMAT_3I :: nat where "GSK_GL_UNIFORM_FORMAT_3I = 11"
definition GSK_GL_UNIFORM_FORMAT_4I :: nat where "GSK_GL_UNIFORM_FORMAT_4I = 12"
definition GSK_GL_UNIFORM_FORMAT_TEXTURE :: nat where "GSK_GL_UNIFORM_FORMAT_TEXTURE = 13"
definition GSK_GL_UNIFORM_FORMAT_MATRIX :: nat where "GSK_GL_UNIFORM_FORMAT_MATRIX = 14"
definition GSK_GL_UNIFORM_FORMAT_ROUNDED_RECT :: nat where "GSK_GL_UNIFORM_FORMAT_ROUNDED_RECT = 15"
definition GSK_GL_UNIFORM_FORMAT_COLOR :: nat where "GSK_GL_UNIFORM_FORMAT_COLOR = 16"
definition GSK_GL_UNIFORM_FORMAT_LAST :: nat where "GSK_GL_UNIFORM_FORMAT_LAST = 17"

text \<open>
  The table \<^verbatim>\<open>uniform_sizes\<close>, in the order of the source. A \<^verbatim>\<open>float\<close>, an \<^verbatim>\<open>int\<close> and
  a \<^verbatim>\<open>guint\<close> take 4 bytes; \<^verbatim>\<open>graphene_matrix_t\<close> (16 floats), \<^verbatim>\<open>GskRoundedRect\<close>
  (12 floats) and \<^verbatim>\<open>GdkRGBA\<close> (4 floats) are types of other libraries. The code indexes
  the table with the format tag itself, whose first value is 1.
\<close>

definition uniform_sizes :: "nat list" where
  "uniform_sizes = [4, 8, 12, 16,  4, 8, 12, 16,  4, 8, 12, 16,  4,  64, 48, 16,  0]"

definition GLIB_SIZEOF_VOID_P :: nat where "GLIB_SIZEOF_VOID_P = 8"

text \<open>
  \<^verbatim>\<open>GskGLUniformInfo\<close> is a struct of bit fields: \<^verbatim>\<open>changed : 1\<close>, \<^verbatim>\<open>format : 5\<close>,
  \<^verbatim>\<open>array_count : 6\<close>, \<^verbatim>\<open>flags : 4\<close>, \<^verbatim>\<open>offset : 16\<close>. A store into a field keeps the low
  bits, which the functions below write out as \<open>mod\<close>.
\<close>

record GskGLUniformInfo =
  ui_changed :: bool
  ui_format :: nat
  ui_array_count :: nat
  ui_flags :: nat
  ui_offset :: nat

record ProgramInfo =
  uniform_info :: "GskGLUniformInfo list option"
  n_changed :: nat

record GskGLUniformState =
  program_info :: "ProgramInfo list"
  uniform_data :: GArray

text \<open>The all-zero elements that \<^verbatim>\<open>g_array_set_size\<close> appends to a cleared array.\<close>

definition zero_uniform_info :: GskGLUniformInfo where
  "zero_uniform_info =
     \<lparr>ui_changed = False, ui_format = 0, ui_array_count = 0, ui_flags = 0, ui_offset = 0\<rparr>"

definition zero_program_info :: ProgramInfo where
  "zero_program_info = \<lparr>uniform_info = None, n_changed = 0\<rparr>"

text \<open>\<^verbatim>\<open>g_array_set_size\<close> on an array created with \<^verbatim>\<open>clear = TRUE\<close>.\<close>

definition g_array_set_size_cleared :: "'a \<Rightarrow> 'a list \<Rightarrow> nat \<Rightarrow> 'a list" where
  "g_array_set_size_cleared zero array n =
     (if n > length array then array @ replicate (n - length array) zero else take n array)"

definition gsk_gl_uniform_state_new :: GskGLUniformState where
  "gsk_gl_uniform_state_new =
     \<lparr>program_info = [], uniform_data = g_array_sized_new (\<lambda>i. 0) 1 0\<rparr>"

text \<open>Reading and writing the slot of a (program, location) that exists.\<close>

definition slot :: "GskGLUniformState \<Rightarrow> nat \<Rightarrow> nat \<Rightarrow> GskGLUniformInfo" where
  "slot state program location =
     the (uniform_info (program_info state ! program)) ! location"

definition slot_update ::
  "GskGLUniformState \<Rightarrow> nat \<Rightarrow> nat \<Rightarrow> (GskGLUniformInfo \<Rightarrow> GskGLUniformInfo) \<Rightarrow> GskGLUniformState" where
  "slot_update state program location f =
     state\<lparr>program_info := (program_info state)
       [program := (program_info state ! program)
          \<lparr>uniform_info :=
             Some ((the (uniform_info (program_info state ! program)))
                     [location := f (slot state program location)])\<rparr>]\<rparr>"

definition has_slot :: "GskGLUniformState \<Rightarrow> nat \<Rightarrow> nat \<Rightarrow> bool" where
  "has_slot state program location =
     (program < length (program_info state)
      \<and> (case uniform_info (program_info state ! program) of
            None \<Rightarrow> False
          | Some infos \<Rightarrow> location < length infos))"

definition program_changed :: "GskGLUniformState \<Rightarrow> nat \<Rightarrow> nat \<Rightarrow> GskGLUniformState" where
  "program_changed state program location =
     (if \<not> ui_changed (slot state program location)
      then (let state1 = slot_update state program location (\<lambda>info. info\<lparr>ui_changed := True\<rparr>)
            in state1\<lparr>program_info := (program_info state1)
                 [program := (program_info state1 ! program)
                    \<lparr>n_changed := guint (n_changed (program_info state1 ! program) + 1)\<rparr>]\<rparr>)
      else state)"


text \<open>
  \<^verbatim>\<open>alloc_uniform_data\<close> returns the new pool and \<^verbatim>\<open>*offset\<close>. \<^verbatim>\<open>align\<close> is 4 or 8, so
  \<^verbatim>\<open>len & (align - 1)\<close> is \<open>len mod align\<close>. The bytes the pool grows by are not
  initialised.
\<close>

definition alloc_uniform_data :: "(nat \<Rightarrow> byte) \<Rightarrow> GArray \<Rightarrow> nat \<Rightarrow> error + GArray \<times> nat" where
  "alloc_uniform_data junk buffer sz =
     (let align = (if sz > 4 then GLIB_SIZEOF_VOID_P else 4);
          masked = ga_len buffer mod align;
          buffer1 = (if masked \<noteq> 0
                     then g_array_set_size junk buffer (guint (ga_len buffer + (align - masked)))
                     else buffer);
          offset = ga_len buffer1;
          buffer2 = g_array_set_size junk buffer1 (guint (ga_len buffer1 + sz))
      in if offset mod align \<noteq> 0 then Inl AssertionFailed else Inr (buffer2, offset))"

text \<open>
  \<^verbatim>\<open>get_uniform\<close> returns the state and the position in the pool that the returned
  pointer points to; \<^verbatim>\<open>*infoptr\<close> is the slot of (program, location). The branch that
  logs \<^verbatim>\<open>g_critical\<close> and returns \<^verbatim>\<open>NULL\<close> is \<open>Inl Critical\<close>.
\<close>

definition get_uniform ::
  "(nat \<Rightarrow> byte) \<Rightarrow> GskGLUniformState \<Rightarrow> nat \<Rightarrow> nat \<Rightarrow> nat \<Rightarrow> nat
     \<Rightarrow> error + GskGLUniformState \<times> nat" where
  "get_uniform junk state program format array_count location =
     (if \<not> program > 0 then Inl AssertionFailed
      else if \<not> array_count < 256 then Inl AssertionFailed
      else if \<not> format < GSK_GL_UNIFORM_FORMAT_LAST then Inl AssertionFailed
      else if \<not> location < GL_MAX_UNIFORM_LOCATIONS then Inl AssertionFailed
      else if has_slot state program location
      then
        (let info = slot state program location in
         if format = ui_format info \<and> array_count \<le> ui_array_count info
         then Inr (state, ui_offset info)
         else Inl Critical)
      else
        (let programs1 =
               (if program \<ge> length (program_info state)
                then g_array_set_size_cleared zero_program_info (program_info state)
                       (guint (program + 1))
                else program_info state)
         in if \<not> program < length programs1 then Inl OutOfBounds
         else
           let programs2 =
                 (if program \<ge> length (program_info state)
                     \<or> uniform_info (program_info state ! program) = None
                  then programs1[program := \<lparr>uniform_info = Some [], n_changed = 0\<rparr>]
                  else programs1);
               infos = the (uniform_info (programs2 ! program));
               infos1 =
                 (if location \<ge> length infos
                  then g_array_set_size_cleared zero_uniform_info infos (guint (location + 1))
                  else infos)
           in case alloc_uniform_data junk (uniform_data state)
                     (guint (uniform_sizes ! format * array_count)) of
                Inl e \<Rightarrow> Inl e
              | Inr (pool, offset) \<Rightarrow>
                  if \<not> location < length infos1 then Inl OutOfBounds
                  else
                    Inr (\<lparr>program_info = programs2
                            [program := (programs2 ! program)
                               \<lparr>uniform_info := Some (infos1
                                  [location := (infos1 ! location)
                                     \<lparr>ui_changed := True, ui_format := format mod 2 ^ 5,
                                      ui_offset := offset mod 2 ^ 16,
                                      ui_array_count := 0\<rparr>])\<rparr>],
                          uniform_data = pool\<rparr>, offset)))"

text \<open>
  The macro \<^verbatim>\<open>REPLACE_UNIFORM (info, u, format, count)\<close>: a fresh region of the pool;
  \<^verbatim>\<open>info->offset\<close> keeps its low 16 bits, \<^verbatim>\<open>u\<close> is the region.
\<close>

definition REPLACE_UNIFORM ::
  "(nat \<Rightarrow> byte) \<Rightarrow> GskGLUniformState \<Rightarrow> nat \<Rightarrow> nat \<Rightarrow> nat \<Rightarrow> nat
     \<Rightarrow> error + GskGLUniformState \<times> nat" where
  "REPLACE_UNIFORM junk state program location format count =
     (case alloc_uniform_data junk (uniform_data state)
             (guint (uniform_sizes ! format * count)) of
        Inl e \<Rightarrow> Inl e
      | Inr (pool, offset) \<Rightarrow>
          Inr (slot_update (state\<lparr>uniform_data := pool\<rparr>) program location
                 (\<lambda>info. info\<lparr>ui_offset := offset mod 2 ^ 16\<rparr>), offset))"

text \<open>
  Four bytes of the pool as one 32-bit value, least significant byte first, and back. A
  \<^verbatim>\<open>float\<close> is its IEEE 754 bit pattern; \<open>float_ne\<close> is C's \<^verbatim>\<open>!=\<close> on two floats: true
  when either is a NaN, false for two zeros of either sign, otherwise the patterns differ.
\<close>

definition le32_value :: "byte list \<Rightarrow> 32 word" where
  "le32_value bytes =
     ucast (bytes ! 0) OR push_bit 8 (ucast (bytes ! 1)) OR push_bit 16 (ucast (bytes ! 2))
       OR push_bit 24 (ucast (bytes ! 3))"

definition le32_bytes :: "32 word \<Rightarrow> byte list" where
  "le32_bytes v = [ucast v, ucast (drop_bit 8 v), ucast (drop_bit 16 v), ucast (drop_bit 24 v)]"

definition load32 :: "GArray \<Rightarrow> nat \<Rightarrow> 32 word option" where
  "load32 pool u =
     (if u + 4 \<le> length (ga_data pool)
      then Some (le32_value (take 4 (drop u (ga_data pool))))
      else None)"

definition store32 :: "GArray \<Rightarrow> nat \<Rightarrow> 32 word \<Rightarrow> GArray option" where
  "store32 pool u v =
     (if u + 4 \<le> length (ga_data pool)
      then Some (pool\<lparr>ga_data := take u (ga_data pool) @ le32_bytes v
                                  @ drop (u + 4) (ga_data pool)\<rparr>)
      else None)"

definition float_is_nan :: "32 word \<Rightarrow> bool" where
  "float_is_nan w = (w AND 0x7FFFFFFF > 0x7F800000)"

definition float_ne :: "32 word \<Rightarrow> 32 word \<Rightarrow> bool" where
  "float_ne a b =
     (float_is_nan a \<or> float_is_nan b
      \<or> (a \<noteq> b \<and> \<not> (a AND 0x7FFFFFFF = 0 \<and> b AND 0x7FFFFFFF = 0)))"

text \<open>
  The setters of one 32-bit value have the same body up to the format tag and the
  comparison: \<^verbatim>\<open>get_uniform\<close>; if the stored value differs, \<^verbatim>\<open>REPLACE_UNIFORM\<close>, store,
  \<^verbatim>\<open>program_changed\<close>.
\<close>

definition set_uniform32 ::
  "nat \<Rightarrow> (32 word \<Rightarrow> 32 word \<Rightarrow> bool) \<Rightarrow> (nat \<Rightarrow> byte) \<Rightarrow> GskGLUniformState \<Rightarrow> nat \<Rightarrow> nat
     \<Rightarrow> 32 word \<Rightarrow> error + GskGLUniformState" where
  "set_uniform32 format differs junk state program location value0 =
     (if \<not> program > 0 then Inl AssertionFailed
      else case get_uniform junk state program format 1 location of
        Inl e \<Rightarrow> Inl e
      | Inr (state1, u) \<Rightarrow>
          (case load32 (uniform_data state1) u of
             None \<Rightarrow> Inl OutOfBounds
           | Some stored \<Rightarrow>
               if differs stored value0
               then (case REPLACE_UNIFORM junk state1 program location format 1 of
                       Inl e \<Rightarrow> Inl e
                     | Inr (state2, u2) \<Rightarrow>
                         (case store32 (uniform_data state2) u2 value0 of
                            None \<Rightarrow> Inl OutOfBounds
                          | Some pool \<Rightarrow>
                              Inr (program_changed (state2\<lparr>uniform_data := pool\<rparr>)
                                     program location)))
               else Inr state1))"

definition gsk_gl_uniform_state_set1f ::
  "(nat \<Rightarrow> byte) \<Rightarrow> GskGLUniformState \<Rightarrow> nat \<Rightarrow> nat \<Rightarrow> 32 word \<Rightarrow> error + GskGLUniformState" where
  "gsk_gl_uniform_state_set1f = set_uniform32 GSK_GL_UNIFORM_FORMAT_1F float_ne"

definition gsk_gl_uniform_state_set1i ::
  "(nat \<Rightarrow> byte) \<Rightarrow> GskGLUniformState \<Rightarrow> nat \<Rightarrow> nat \<Rightarrow> 32 word \<Rightarrow> error + GskGLUniformState" where
  "gsk_gl_uniform_state_set1i = set_uniform32 GSK_GL_UNIFORM_FORMAT_1I (\<lambda>stored value0. stored \<noteq> value0)"

text \<open>
  The loop of \<^verbatim>\<open>snapshot\<close> from location \<open>i\<close> on: the callback sees a changed slot as
  it is, then the slot's changed flag and flags are cleared. The callback's effect is a
  function on the closure data.
\<close>

fun snapshot_slots ::
  "(GskGLUniformInfo \<Rightarrow> nat \<Rightarrow> 'u \<Rightarrow> 'u) \<Rightarrow> nat \<Rightarrow> GskGLUniformInfo list \<Rightarrow> 'u
     \<Rightarrow> GskGLUniformInfo list \<times> 'u" where
  "snapshot_slots callback i [] user_data = ([], user_data)"
| "snapshot_slots callback i (info # infos) user_data =
     (if \<not> ui_changed info
      then (let (infos', user_data') = snapshot_slots callback (Suc i) infos user_data
            in (info # infos', user_data'))
      else (let (infos', user_data') =
                  snapshot_slots callback (Suc i) infos (callback info i user_data)
            in (info\<lparr>ui_changed := False, ui_flags := 0\<rparr> # infos', user_data')))"

definition gsk_gl_uniform_state_snapshot ::
  "GskGLUniformState \<Rightarrow> nat \<Rightarrow> (GskGLUniformInfo \<Rightarrow> nat \<Rightarrow> 'u \<Rightarrow> 'u) \<Rightarrow> 'u
     \<Rightarrow> error + GskGLUniformState \<times> 'u" where
  "gsk_gl_uniform_state_snapshot state program_id callback user_data =
     (if \<not> program_id > 0 then Inl AssertionFailed
      else if program_id \<ge> length (program_info state) then Inr (state, user_data)
      else
        case uniform_info (program_info state ! program_id) of
          None \<Rightarrow> Inr (state, user_data)
        | Some infos \<Rightarrow>
            if n_changed (program_info state ! program_id) = 0 then Inr (state, user_data)
            else
              let (infos', user_data') = snapshot_slots callback 0 infos user_data
              in Inr (state\<lparr>program_info := (program_info state)
                        [program_id := \<lparr>uniform_info = Some infos', n_changed = 0\<rparr>]\<rparr>,
                      user_data'))"

section \<open>Command queue (gskglcommandqueue.c)\<close>



definition GSK_GL_N_VERTICES :: nat where "GSK_GL_N_VERTICES = 6"

text \<open>\<^verbatim>\<open>sizeof (GskGLDrawVertex)\<close>: two floats of position, two of texture coordinate.\<close>

definition sizeof_GskGLDrawVertex :: nat where "sizeof_GskGLDrawVertex = 16"

datatype GskGLCommandKind =
    GSK_GL_COMMAND_KIND_CLEAR
  | GSK_GL_COMMAND_KIND_PUSH_DEBUG_GROUP
  | GSK_GL_COMMAND_KIND_POP_DEBUG_GROUP
  | GSK_GL_COMMAND_KIND_DRAW

text \<open>\<^verbatim>\<open>GskGLCommandBind\<close>: \<^verbatim>\<open>texture : 5\<close>, \<^verbatim>\<open>id : 27\<close>.\<close>

record GskGLCommandBind =
  cb_texture :: nat
  cb_id :: nat

text \<open>
  \<^verbatim>\<open>GskGLCommandDraw\<close>: \<^verbatim>\<open>uniform_count : 11\<close>, \<^verbatim>\<open>bind_count : 5\<close>, \<^verbatim>\<open>vbo_count : 16\<close>;
  the other fields are whole \<^verbatim>\<open>guint\<close>s.
\<close>

record GskGLCommandDraw =
  draw_framebuffer :: nat
  draw_uniform_count :: nat
  draw_bind_count :: nat
  draw_vbo_count :: nat
  draw_vbo_offset :: nat
  draw_uniform_offset :: nat
  draw_bind_offset :: nat

record GskGLCommandUniform =
  cu_info :: GskGLUniformInfo
  cu_location :: nat

text \<open>
  \<^verbatim>\<open>GskGLCommandBatch\<close>: \<^verbatim>\<open>kind : 8\<close>, \<^verbatim>\<open>program : 24\<close> and a union, of which the
  functions embedded here use the member \<^verbatim>\<open>draw\<close> only.
\<close>

record GskGLCommandBatch =
  batch_next_batch_index :: int
  batch_kind :: GskGLCommandKind
  batch_program :: nat
  batch_draw :: GskGLCommandDraw

definition zero_batch :: GskGLCommandBatch where
  "zero_batch =
     \<lparr>batch_next_batch_index = 0, batch_kind = GSK_GL_COMMAND_KIND_CLEAR, batch_program = 0,
      batch_draw = \<lparr>draw_framebuffer = 0, draw_uniform_count = 0, draw_bind_count = 0,
                    draw_vbo_count = 0, draw_vbo_offset = 0, draw_uniform_offset = 0,
                    draw_bind_offset = 0\<rparr>\<rparr>"

text \<open>
  The queue. \<open>context_use_es\<close> is what \<^verbatim>\<open>gdk_gl_context_get_use_es (self->context)\<close>
  answers; \<^verbatim>\<open>batch_draws\<close> and \<^verbatim>\<open>debug_groups\<close> are not used by the functions embedded
  here.
\<close>

record GskGLCommandQueue =
  context_use_es :: bool
  batches :: "GskGLCommandBatch list"
  vertices :: GskGLBuffer
  attachments :: GskGLAttachmentState
  uniforms :: GskGLUniformState
  batch_binds :: "GskGLCommandBind list"
  batch_uniforms :: "GskGLCommandUniform list"
  saved_state :: "GskGLAttachmentState list"
  autorelease_framebuffers :: "nat list"
  autorelease_textures :: "nat list"
  max_texture_size :: int
  tail_batch_index :: int
  in_draw :: bool

text \<open>
  \<^verbatim>\<open>gsk_gl_command_queue_new\<close> with \<^verbatim>\<open>gsk_gl_command_queue_init\<close>: \<^verbatim>\<open>g_object_new\<close> hands
  out zeroed memory, so \<^verbatim>\<open>tail_batch_index\<close> is 0 and \<^verbatim>\<open>in_draw\<close> is clear; \<^verbatim>\<open>init\<close>
  sets \<^verbatim>\<open>max_texture_size\<close> to -1 and creates the arrays and the three owned objects.
  Nothing in this revision assigns \<^verbatim>\<open>max_texture_size\<close> again.
\<close>

definition gsk_gl_command_queue_new ::
  "(nat \<Rightarrow> byte) \<Rightarrow> bool \<Rightarrow> gl_context \<Rightarrow> GskGLCommandQueue \<times> gl_context" where
  "gsk_gl_command_queue_new junk use_es gl =
     (let (buffer, gl1) = gsk_gl_buffer_new junk GL_ARRAY_BUFFER sizeof_GskGLDrawVertex gl
      in (\<lparr>context_use_es = use_es, batches = [], vertices = buffer,
           attachments = gsk_gl_attachment_state_new, uniforms = gsk_gl_uniform_state_new,
           batch_binds = [], batch_uniforms = [], saved_state = [],
           autorelease_framebuffers = [], autorelease_textures = [],
           max_texture_size = - 1, tail_batch_index = 0, in_draw = False\<rparr>, gl1))"


definition gsk_gl_command_queue_begin_frame ::
  "GskGLCommandQueue \<Rightarrow> gl_context \<Rightarrow> GskGLCommandQueue \<times> gl_context" where
  "gsk_gl_command_queue_begin_frame self gl =
     (self\<lparr>tail_batch_index := - 1\<rparr>,
      gl_log (GlUseProgram 0) (gl_log (GlBindVertexArray 0)
        (fold (\<lambda>i. glBindTexture GL_TEXTURE_2D 0 \<circ> glActiveTexture (GL_TEXTURE0 + i)) [0..<8]
           (glBindFramebuffer GL_FRAMEBUFFER 0 gl))))"

definition gsk_gl_command_queue_save :: "GskGLCommandQueue \<Rightarrow> GskGLCommandQueue" where
  "gsk_gl_command_queue_save self =
     self\<lparr>saved_state := saved_state self @ [gsk_gl_attachment_state_save (attachments self)]\<rparr>"


definition gsk_gl_command_queue_bind_framebuffer ::
  "GskGLCommandQueue \<Rightarrow> nat \<Rightarrow> GskGLCommandQueue" where
  "gsk_gl_command_queue_bind_framebuffer self framebuffer =
     self\<lparr>attachments := gsk_gl_attachment_state_bind_framebuffer (attachments self) framebuffer\<rparr>"

definition gsk_gl_command_queue_set_uniform1i ::
  "(nat \<Rightarrow> byte) \<Rightarrow> GskGLCommandQueue \<Rightarrow> nat \<Rightarrow> nat \<Rightarrow> 32 word \<Rightarrow> error + GskGLCommandQueue" where
  "gsk_gl_command_queue_set_uniform1i junk self program location value0 =
     (case gsk_gl_uniform_state_set1i junk (uniforms self) program location value0 of
        Inl e \<Rightarrow> Inl e
      | Inr state \<Rightarrow> Inr (self\<lparr>uniforms := state\<rparr>))"

text \<open>
  \<^verbatim>\<open>begin_draw\<close> appends a zeroed batch and fills it in. It does not touch \<^verbatim>\<open>in_draw\<close>.
\<close>

definition gsk_gl_command_queue_begin_draw ::
  "GskGLCommandQueue \<Rightarrow> nat \<Rightarrow> error + GskGLCommandQueue" where
  "gsk_gl_command_queue_begin_draw self program =
     (if \<not> in_draw self = False then Inl Critical
      else
        let array = g_array_set_size_cleared zero_batch (batches self)
                      (guint (length (batches self) + 1))
        in if array = [] then Inl OutOfBounds
           else Inr (self\<lparr>batches := array
                  [length array - 1 :=
                     (array ! (length array - 1))
                       \<lparr>batch_kind := GSK_GL_COMMAND_KIND_DRAW,
                        batch_program := program mod 2 ^ 24,
                        batch_next_batch_index := - 1,
                        batch_draw :=
                          \<lparr>draw_framebuffer = 0, draw_uniform_count = 0, draw_bind_count = 0,
                           draw_vbo_count = 0,
                           draw_vbo_offset = gsk_gl_buffer_get_offset (vertices self),
                           draw_uniform_offset = length (batch_uniforms self),
                           draw_bind_offset = length (batch_binds self)\<rparr>\<rparr>]\<rparr>))"

text \<open>The callback \<^verbatim>\<open>end_draw\<close> hands to the snapshot: append (info, location).\<close>

definition gsk_gl_command_queue_uniform_snapshot_cb ::
  "GskGLUniformInfo \<Rightarrow> nat \<Rightarrow> GskGLCommandUniform list \<Rightarrow> GskGLCommandUniform list" where
  "gsk_gl_command_queue_uniform_snapshot_cb info location array =
     array @ [\<lparr>cu_info = info, cu_location = location\<rparr>]"

text \<open>
  The loop of \<^verbatim>\<open>end_draw\<close> over the texture units: the units after the ones done, the
  binds recorded and the count so far.
\<close>

fun end_draw_binds ::
  "GskGLBindTexture list \<Rightarrow> GskGLCommandBind list \<Rightarrow> nat
     \<Rightarrow> GskGLBindTexture list \<times> GskGLCommandBind list \<times> nat" where
  "end_draw_binds [] binds bind_count = ([], binds, bind_count)"
| "end_draw_binds (texture # rest) binds bind_count =
     (if bt_changed texture
      then (let (rest', binds', bind_count') =
                  end_draw_binds rest
                    (binds @ [\<lparr>cb_texture = bt_texture texture mod 2 ^ 5,
                               cb_id = bt_id texture mod 2 ^ 27\<rparr>])
                    ((bind_count + 1) mod 2 ^ 5)
            in (texture\<lparr>bt_changed := False\<rparr> # rest', binds', bind_count'))
      else (let (rest', binds', bind_count') = end_draw_binds rest binds bind_count
            in (texture # rest', binds', bind_count')))"

definition gsk_gl_command_queue_end_draw :: "GskGLCommandQueue \<Rightarrow> error + GskGLCommandQueue" where
  "gsk_gl_command_queue_end_draw self =
     (if \<not> length (batches self) > 0 then Inl Critical
      else if \<not> in_draw self = True then Inl Critical
      else
        let batch = batches self ! (length (batches self) - 1) in
        if \<not> batch_kind batch = GSK_GL_COMMAND_KIND_DRAW then Inl AssertionFailed
        else
          case gsk_gl_uniform_state_snapshot (uniforms self) (batch_program batch)
                 gsk_gl_command_queue_uniform_snapshot_cb (batch_uniforms self) of
            Inl e \<Rightarrow> Inl e
          | Inr (state, uniform_array) \<Rightarrow>
              let (textures', binds', bind_count') =
                    end_draw_binds (textures (attachments self)) (batch_binds self) 0;
                  batch' = batch\<lparr>batch_draw := (batch_draw batch)
                     \<lparr>draw_framebuffer := bf_id (fbo (attachments self)),
                      draw_uniform_offset := length (batch_uniforms self),
                      draw_uniform_count :=
                        guint (length uniform_array - length (batch_uniforms self)) mod 2 ^ 11,
                      draw_bind_offset := length (batch_binds self),
                      draw_bind_count := bind_count'\<rparr>\<rparr>;
                  array = (batches self)[length (batches self) - 1 := batch']
              in if tail_batch_index self > - 1
                    \<and> \<not> nat (tail_batch_index self) < length array
                 then Inl OutOfBounds
                 else
                   Inr (self\<lparr>batches :=
                          (if tail_batch_index self > - 1
                           then array[nat (tail_batch_index self) :=
                                  (array ! nat (tail_batch_index self))
                                    \<lparr>batch_next_batch_index := int (length array) - 1\<rparr>]
                           else array),
                        attachments := (attachments self)
                          \<lparr>fbo := (fbo (attachments self))\<lparr>bf_changed := False\<rparr>,
                           textures := textures'\<rparr>,
                        uniforms := state,
                        batch_uniforms := uniform_array,
                        batch_binds := binds',
                        tail_batch_index := int (length array) - 1,
                        in_draw := False\<rparr>))"

text \<open>
  \<^verbatim>\<open>add_vertices\<close> returns the queue and the pointer it returns: \<open>None\<close> for \<^verbatim>\<open>NULL\<close>.
  \<open>quad\<close> is the caller's array of \<^verbatim>\<open>GSK_GL_N_VERTICES\<close> vertices as bytes, or \<open>None\<close>
  for a \<^verbatim>\<open>NULL\<close> argument.
\<close>

definition gsk_gl_command_queue_add_vertices ::
  "(nat \<Rightarrow> byte) \<Rightarrow> GskGLCommandQueue \<Rightarrow> byte list option
     \<Rightarrow> error + GskGLCommandQueue \<times> nat option" where
  "gsk_gl_command_queue_add_vertices junk self quad =
     (if \<not> in_draw self = True then Inl Critical
      else if batches self = [] then Inl OutOfBounds
      else
        let batch = batches self ! (length (batches self) - 1);
            array = (batches self)[length (batches self) - 1 :=
                      batch\<lparr>batch_draw := (batch_draw batch)
                        \<lparr>draw_vbo_count :=
                           (draw_vbo_count (batch_draw batch) + GSK_GL_N_VERTICES) mod 2 ^ 16\<rparr>\<rparr>];
            (dest, offset, buffer) = gsk_gl_buffer_advance junk (vertices self) GSK_GL_N_VERTICES
        in case quad of
             None \<Rightarrow> Inr (self\<lparr>batches := array, vertices := buffer\<rparr>, Some dest)
           | Some bytes \<Rightarrow>
               if length bytes \<noteq> sizeof_GskGLDrawVertex * GSK_GL_N_VERTICES then Inl OutOfBounds
               else (case memcpy_into (buf_buffer buffer) dest bytes of
                       Inl e \<Rightarrow> Inl e
                     | Inr host \<Rightarrow>
                         Inr (self\<lparr>batches := array,
                                   vertices := buffer\<lparr>buf_buffer := host\<rparr>\<rparr>, None)))"


section \<open>Redundant binds\<close>

text \<open>
  C9. \<^verbatim>\<open>bind_texture (target, unit, id)\<close> on a unit whose stored binding already is
  (target, unit, id) hands the attachment state back as it was, the unit's changed
  flag included; \<^verbatim>\<open>bind_framebuffer\<close> with the stored framebuffer id does the same for
  the framebuffer entry. Nothing is marked changed, so \<^verbatim>\<open>end_draw\<close> finds no bind to
  record for replay.
\<close>

theorem bind_same_is_noop:
  assumes "target = GL_TEXTURE_1D \<or> target = GL_TEXTURE_2D \<or> target = GL_TEXTURE_3D"
    and "GL_TEXTURE0 \<le> texture" and "texture \<le> GL_TEXTURE16"
    and "texture - GL_TEXTURE0 < length (textures self)"
    and "bt_target (textures self ! (texture - GL_TEXTURE0)) = target"
    and "bt_texture (textures self ! (texture - GL_TEXTURE0)) = texture"
    and "bt_id (textures self ! (texture - GL_TEXTURE0)) = ident"
  shows "gsk_gl_attachment_state_bind_texture self target texture ident = Inr self
       \<and> gsk_gl_attachment_state_bind_framebuffer self (bf_id (fbo self)) = self"
  using assms
  by (simp add: gsk_gl_attachment_state_bind_texture_def
      gsk_gl_attachment_state_bind_framebuffer_def)

theorem bind_same_is_noop_witness:
  "gsk_gl_attachment_state_bind_texture
     (gsk_gl_attachment_state_new\<lparr>textures := (textures gsk_gl_attachment_state_new)
        [1 := \<lparr>bt_changed = True, bt_initial = False, bt_target = GL_TEXTURE_2D,
               bt_texture = GL_TEXTURE0 + 1, bt_id = 7\<rparr>],
        has_texture_change := True\<rparr>)
     GL_TEXTURE_2D (GL_TEXTURE0 + 1) 7
   = Inr (gsk_gl_attachment_state_new\<lparr>textures := (textures gsk_gl_attachment_state_new)
        [1 := \<lparr>bt_changed = True, bt_initial = False, bt_target = GL_TEXTURE_2D,
               bt_texture = GL_TEXTURE0 + 1, bt_id = 7\<rparr>],
        has_texture_change := True\<rparr>)"
  using bind_same_is_noop [of GL_TEXTURE_2D "GL_TEXTURE0 + 1"
      "gsk_gl_attachment_state_new\<lparr>textures := (textures gsk_gl_attachment_state_new)
        [1 := \<lparr>bt_changed = True, bt_initial = False, bt_target = GL_TEXTURE_2D,
               bt_texture = GL_TEXTURE0 + 1, bt_id = 7\<rparr>],
        has_texture_change := True\<rparr>" 7]
  by (simp add: gsk_gl_attachment_state_new_def N_TEXTURES_def GL_TEXTURE0_def GL_TEXTURE16_def)

section \<open>Save and restore\<close>

lemma restore_textures_framebuffer:
  "gl_framebuffer (restore_textures i ts gl) = gl_framebuffer gl"
  by (induction ts arbitrary: i gl)
     (simp_all add: glBindTexture_def glActiveTexture_def gl_log_def)

lemma restore_textures_binding:
  "gl_texture_binding (restore_textures i ts gl) u =
     (if GL_TEXTURE0 + i \<le> u \<and> u < GL_TEXTURE0 + i + length ts
         \<and> \<not> bt_initial (ts ! (u - (GL_TEXTURE0 + i)))
      then (gl_texture_binding gl u)
             (bt_target (ts ! (u - (GL_TEXTURE0 + i))) := bt_id (ts ! (u - (GL_TEXTURE0 + i))))
      else gl_texture_binding gl u)"
proof (induction ts arbitrary: i gl u)
  case Nil
  show ?case by auto
next
  case (Cons t ts)
  show ?case
  proof (cases "u = GL_TEXTURE0 + i")
    case True
    then show ?thesis
      by (simp add: Cons.IH glBindTexture_def glActiveTexture_def gl_log_def)
  next
    case False
    then have "GL_TEXTURE0 + i \<le> u \<Longrightarrow> u - (GL_TEXTURE0 + i) = Suc (u - (GL_TEXTURE0 + Suc i))"
      by arith
    with False show ?thesis
      by (auto simp add: Cons.IH glBindTexture_def glActiveTexture_def gl_log_def)
  qed
qed

text \<open>
  C7, as stated, fails. Unit 0 of a new attachment state is flagged \<open>initial\<close> with
  texture 0 recorded. Take a snapshot, bind texture 7 to \<^verbatim>\<open>GL_TEXTURE_2D\<close> of unit 0 in
  the driver (what \<^verbatim>\<open>create_texture\<close> does between its save and restore), restore the
  snapshot: the unit still has texture 7 bound, not the 0 recorded at save time.
\<close>

theorem restore_leaves_initial_unit:
  "bt_id (textures (gsk_gl_attachment_state_save gsk_gl_attachment_state_new) ! 0) = 0
   \<and> bt_target (textures (gsk_gl_attachment_state_save gsk_gl_attachment_state_new) ! 0)
       = GL_TEXTURE_2D
   \<and> gl_texture_binding gl_initial GL_TEXTURE0 GL_TEXTURE_2D = 0
   \<and> gl_texture_binding
        (gsk_gl_attachment_state_restore
           (gsk_gl_attachment_state_save gsk_gl_attachment_state_new)
           (glBindTexture GL_TEXTURE_2D 7 (glActiveTexture GL_TEXTURE0 gl_initial)))
        GL_TEXTURE0 GL_TEXTURE_2D = 7"
  by (simp add: gsk_gl_attachment_state_restore_def restore_textures_binding
      gsk_gl_attachment_state_save_def gsk_gl_attachment_state_new_def N_TEXTURES_def
      glBindFramebuffer_def glBindTexture_def glActiveTexture_def gl_log_def gl_initial_def)

text \<open>
  C7, amended. Whatever the driver's bindings are when \<^verbatim>\<open>restore\<close> runs (so after any
  intervening binds; the snapshot is a copy, which binds on the live attachment state
  do not touch), restoring the snapshot taken by \<^verbatim>\<open>save\<close> leaves the driver with the
  framebuffer recorded at save time and, for every texture unit that was not flagged
  \<open>initial\<close> at save time, with the recorded texture bound to the recorded target of
  that unit. A unit flagged \<open>initial\<close> keeps whatever the driver had bound.
\<close>

theorem save_restore_rebinds:
  "gl_framebuffer (gsk_gl_attachment_state_restore (gsk_gl_attachment_state_save self) gl)
     = bf_id (fbo self)
   \<and> (\<forall>i < length (textures self).
        if bt_initial (textures self ! i)
        then gl_texture_binding
               (gsk_gl_attachment_state_restore (gsk_gl_attachment_state_save self) gl)
               (GL_TEXTURE0 + i)
             = gl_texture_binding gl (GL_TEXTURE0 + i)
        else gl_texture_binding
               (gsk_gl_attachment_state_restore (gsk_gl_attachment_state_save self) gl)
               (GL_TEXTURE0 + i) (bt_target (textures self ! i))
             = bt_id (textures self ! i))"
  by (simp add: gsk_gl_attachment_state_restore_def restore_textures_binding
      restore_textures_framebuffer gsk_gl_attachment_state_save_def
      glBindFramebuffer_def gl_log_def)

theorem save_restore_rebinds_witness:
  "gl_framebuffer
     (gsk_gl_attachment_state_restore
        (gsk_gl_attachment_state_save
           (gsk_gl_attachment_state_new\<lparr>fbo := \<lparr>bf_changed = True, bf_id = 3\<rparr>,
              textures := (textures gsk_gl_attachment_state_new)
                [1 := \<lparr>bt_changed = True, bt_initial = False, bt_target = GL_TEXTURE_2D,
                       bt_texture = GL_TEXTURE0 + 1, bt_id = 7\<rparr>]\<rparr>))
        (glBindTexture GL_TEXTURE_2D 9 (glActiveTexture (GL_TEXTURE0 + 1)
           (glBindFramebuffer GL_FRAMEBUFFER 5 gl_initial)))) = 3
   \<and> gl_texture_binding
     (gsk_gl_attachment_state_restore
        (gsk_gl_attachment_state_save
           (gsk_gl_attachment_state_new\<lparr>fbo := \<lparr>bf_changed = True, bf_id = 3\<rparr>,
              textures := (textures gsk_gl_attachment_state_new)
                [1 := \<lparr>bt_changed = True, bt_initial = False, bt_target = GL_TEXTURE_2D,
                       bt_texture = GL_TEXTURE0 + 1, bt_id = 7\<rparr>]\<rparr>))
        (glBindTexture GL_TEXTURE_2D 9 (glActiveTexture (GL_TEXTURE0 + 1)
           (glBindFramebuffer GL_FRAMEBUFFER 5 gl_initial))))
     (GL_TEXTURE0 + 1) GL_TEXTURE_2D = 7"
proof -
  let ?s = "gsk_gl_attachment_state_new\<lparr>fbo := \<lparr>bf_changed = True, bf_id = 3\<rparr>,
              textures := (textures gsk_gl_attachment_state_new)
                [1 := \<lparr>bt_changed = True, bt_initial = False, bt_target = GL_TEXTURE_2D,
                       bt_texture = GL_TEXTURE0 + 1, bt_id = 7\<rparr>]\<rparr>"
  let ?gl = "glBindTexture GL_TEXTURE_2D 9 (glActiveTexture (GL_TEXTURE0 + 1)
           (glBindFramebuffer GL_FRAMEBUFFER 5 gl_initial))"
  have len: "1 < length (textures ?s)"
    by (simp add: gsk_gl_attachment_state_new_def N_TEXTURES_def)
  have unit1: "textures ?s ! 1 = \<lparr>bt_changed = True, bt_initial = False,
      bt_target = GL_TEXTURE_2D, bt_texture = GL_TEXTURE0 + 1, bt_id = 7\<rparr>"
    by (simp add: gsk_gl_attachment_state_new_def N_TEXTURES_def)
  from save_restore_rebinds [of ?s ?gl] len unit1 show ?thesis
    by (auto simp: gsk_gl_attachment_state_new_def)
qed
section \<open>Growable buffer: advance, write, submit\<close>

text \<open>Growth of the host array.\<close>

lemma g_nearest_pow_from_ge: "0 < n \<Longrightarrow> num \<le> g_nearest_pow_from n num"
proof (induction n num rule: g_nearest_pow_from.induct)
  case (1 n num)
  show ?case
  proof (cases "n < num \<and> 0 < n")
    case True
    then have "num \<le> g_nearest_pow_from (2 * n) num" using "1.IH" by simp
    with True show ?thesis by (subst g_nearest_pow_from.simps) simp
  next
    case False
    with "1.prems" show ?thesis by (subst g_nearest_pow_from.simps) simp
  qed
qed

lemma g_nearest_pow_ge: "num \<le> g_nearest_pow num"
  by (simp add: g_nearest_pow_def g_nearest_pow_from_ge)

lemma maybe_expand_elt [simp]: "ga_elt_size (g_array_maybe_expand junk a n) = ga_elt_size a"
  and maybe_expand_len [simp]: "ga_len (g_array_maybe_expand junk a n) = ga_len a"
  by (simp_all add: g_array_maybe_expand_def Let_def)

lemma maybe_expand_capacity:
  "(ga_len a + n) * ga_elt_size a \<le> length (ga_data (g_array_maybe_expand junk a n))"
  using g_nearest_pow_ge [of "(ga_len a + n) * ga_elt_size a"]
  by (auto simp add: g_array_maybe_expand_def Let_def)

lemma maybe_expand_prefix:
  "take (length (ga_data a)) (ga_data (g_array_maybe_expand junk a n)) = ga_data a"
  by (simp add: g_array_maybe_expand_def Let_def)

lemma maybe_expand_grows:
  "length (ga_data a) \<le> length (ga_data (g_array_maybe_expand junk a n))"
  using g_nearest_pow_ge [of "(ga_len a + n) * ga_elt_size a"]
  by (auto simp add: g_array_maybe_expand_def Let_def)

lemma set_size_elt [simp]: "ga_elt_size (g_array_set_size junk a n) = ga_elt_size a"
  and set_size_len [simp]: "ga_len (g_array_set_size junk a n) = n"
  by (simp_all add: g_array_set_size_def)

lemma set_size_capacity:
  assumes "ga_len a * ga_elt_size a \<le> length (ga_data a)"
  shows "n * ga_elt_size a \<le> length (ga_data (g_array_set_size junk a n))"
proof (cases "n > ga_len a")
  case True
  then show ?thesis
    using maybe_expand_capacity [of a "n - ga_len a" junk] by (simp add: g_array_set_size_def)
next
  case False
  then have "n * ga_elt_size a \<le> ga_len a * ga_elt_size a" by simp
  with assms have "n * ga_elt_size a \<le> length (ga_data a)" by (meson le_trans)
  with False show ?thesis by (simp add: g_array_set_size_def)
qed

lemma set_size_prefix:
  "take (length (ga_data a)) (ga_data (g_array_set_size junk a n)) = ga_data a"
  by (simp add: g_array_set_size_def maybe_expand_prefix)

lemma set_size_keeps_capacity:
  "n * ga_elt_size a \<le> length (ga_data a) \<Longrightarrow> ga_data (g_array_set_size junk a n) = ga_data a"
  by (auto simp add: g_array_set_size_def g_array_maybe_expand_def Let_def)

lemma set_size_ge_capacity:
  "length (ga_data a) \<le> length (ga_data (g_array_set_size junk a n))"
  by (simp add: g_array_set_size_def maybe_expand_grows)

text \<open>The buffer calls of the driver, field by field.\<close>

lemma glBindBuffer_fields [simp]:
  "gl_buffer_binding (glBindBuffer t n gl) = (gl_buffer_binding gl)(t := n)"
  "gl_buffer_store (glBindBuffer t n gl) = gl_buffer_store gl"
  "gl_names (glBindBuffer t n gl) = gl_names gl"
  "gl_generated (glBindBuffer t n gl) = gl_generated gl"
  "gl_calls (glBindBuffer t n gl) = gl_calls gl @ [GlBindBuffer t n]"
  by (simp_all add: glBindBuffer_def gl_log_def)

lemma glDeleteBuffers_fields [simp]:
  "gl_names (glDeleteBuffers n gl) = gl_names gl"
  "gl_generated (glDeleteBuffers n gl) = gl_generated gl"
  "gl_calls (glDeleteBuffers n gl) = gl_calls gl @ [GlDeleteBuffers n]"
  by (simp_all add: glDeleteBuffers_def gl_log_def)

lemma glGenBuffers_fields [simp]:
  "fst (glGenBuffers gl) = gl_names gl (gl_generated gl)"
  "gl_buffer_binding (snd (glGenBuffers gl)) = gl_buffer_binding gl"
  "gl_buffer_store (snd (glGenBuffers gl)) = gl_buffer_store gl"
  "gl_names (snd (glGenBuffers gl)) = gl_names gl"
  "gl_generated (snd (glGenBuffers gl)) = Suc (gl_generated gl)"
  "gl_calls (snd (glGenBuffers gl)) = gl_calls gl @ [GlGenBuffers (gl_names gl (gl_generated gl))]"
  by (simp_all add: glGenBuffers_def gl_log_def)

lemma glBufferData_fields [simp]:
  "gl_buffer_binding (glBufferData junk t sz gl) = gl_buffer_binding gl"
  "gl_buffer_store (glBufferData junk t sz gl) =
     (if gl_buffer_binding gl t = 0 then gl_buffer_store gl
      else (gl_buffer_store gl)(gl_buffer_binding gl t := Some (map junk [0..<sz])))"
  "gl_names (glBufferData junk t sz gl) = gl_names gl"
  "gl_generated (glBufferData junk t sz gl) = gl_generated gl"
  "gl_calls (glBufferData junk t sz gl) = gl_calls gl @ [GlBufferData t sz]"
  by (simp_all add: glBufferData_def gl_log_def)

lemma glBufferSubData_fields [simp]:
  "gl_buffer_binding (glBufferSubData t off sz bytes gl) = gl_buffer_binding gl"
  "gl_names (glBufferSubData t off sz bytes gl) = gl_names gl"
  "gl_generated (glBufferSubData t off sz bytes gl) = gl_generated gl"
  "gl_calls (glBufferSubData t off sz bytes gl) = gl_calls gl @ [GlBufferSubData t off (take sz bytes)]"
  by (simp_all add: glBufferSubData_def gl_log_def split: option.splits)

lemma glBufferSubData_store:
  assumes "gl_buffer_binding gl t \<noteq> 0"
    and "gl_buffer_store gl (gl_buffer_binding gl t) = Some d"
    and "sz \<le> length d"
  shows "gl_buffer_store (glBufferSubData t 0 sz bytes gl) (gl_buffer_binding gl t)
           = Some (take sz bytes @ drop sz d)"
  using assms by (simp add: glBufferSubData_def gl_log_def)

text \<open>What \<^verbatim>\<open>gsk_gl_buffer_shadow_submit\<close> leaves in the driver, on both of its branches.\<close>

lemma guint_id: "n < 2 ^ 32 \<Longrightarrow> guint n = n"
  by (simp add: guint_def)

lemma shadow_submit_uploads:
  assumes up: "ga_len arr * ga_elt_size arr \<le> length (ga_data arr)"
    and range: "ga_len arr * ga_elt_size arr < 2 ^ 32 - 4 * 4096"
    and name: "gl_names gl (gl_generated gl) \<noteq> 0"
    and store: "sh_id sh \<noteq> 0" "gl_buffer_store gl (sh_id sh) = Some d0" "size_on_gpu sh \<le> length d0"
  shows "\<exists>d. gl_buffer_store (snd (gsk_gl_buffer_shadow_submit junk sh target arr gl))
                (sh_id (fst (gsk_gl_buffer_shadow_submit junk sh target arr gl))) = Some d
            \<and> take (ga_len arr * ga_elt_size arr) d = take (ga_len arr * ga_elt_size arr) (ga_data arr)
            \<and> size_on_gpu (fst (gsk_gl_buffer_shadow_submit junk sh target arr gl)) \<le> length d"
    (is ?A)
    and "gl_buffer_binding (snd (gsk_gl_buffer_shadow_submit junk sh target arr gl)) target
          = sh_id (fst (gsk_gl_buffer_shadow_submit junk sh target arr gl))" (is ?B)
    and "sh_id (fst (gsk_gl_buffer_shadow_submit junk sh target arr gl)) \<noteq> 0" (is ?C)
    and "last (gl_calls (snd (gsk_gl_buffer_shadow_submit junk sh target arr gl))) =
           GlBufferSubData target 0 (take (ga_len arr * ga_elt_size arr) (ga_data arr))" (is ?D)
proof -
  define n where "n = ga_len arr * ga_elt_size arr"
  define new where "new = n - n mod 4096 + 4 * 4096"
  define ident where "ident = gl_names gl (gl_generated gl)"
  have m: "guint (ga_len arr * ga_elt_size arr) = n"
    using range by (simp add: n_def guint_id)
  have "n - n mod 4096 \<le> n" by (rule diff_le_self)
  with range have "n - n mod 4096 + 4 * 4096 < 2 ^ 32" unfolding n_def by simp
  then have sz: "guint (n - n mod 4096 + 4 * 4096) = new"
    unfolding new_def by (rule guint_id)
  have ge: "n \<le> new"
  proof -
    have aux: "\<And>k::nat. k \<le> 4 * 4096 \<Longrightarrow> n \<le> n - k + 4 * 4096" by linarith
    have "n mod 4096 \<le> 4 * 4096" by (rule order_trans [OF mod_le_divisor]) simp_all
    then show ?thesis unfolding new_def by (rule aux)
  qed
  have len_take: "length (take n (ga_data arr)) = n" using up by (simp add: n_def)
  define gl5 where "gl5 = glBufferData junk target new (glBindBuffer target ident
        (snd (glGenBuffers (glDeleteBuffers (sh_id sh) (glBindBuffer target 0 gl)))))"
  define gl1 where "gl1 = glBindBuffer target (sh_id sh) gl"
  have unfold: "gsk_gl_buffer_shadow_submit junk sh target arr gl =
     (if n > size_on_gpu sh
      then (sh\<lparr>sh_id := ident, size_on_gpu := new\<rparr>, glBufferSubData target 0 n (ga_data arr) gl5)
      else (sh, glBufferSubData target 0 n (ga_data arr) gl1))"
    unfolding gsk_gl_buffer_shadow_submit_def Let_def m sz split_beta gl5_def gl1_def ident_def
    by simp
  have b5: "gl_buffer_binding gl5 target = ident" by (simp add: gl5_def)
  have st5: "gl_buffer_store gl5 ident = Some (map junk [0..<new])"
    using name by (simp add: gl5_def ident_def)
  have "gl_buffer_store (glBufferSubData target 0 n (ga_data arr) gl5) (gl_buffer_binding gl5 target)
          = Some (take n (ga_data arr) @ drop n (map junk [0..<new]))"
    by (rule glBufferSubData_store) (use name b5 st5 ge in \<open>simp_all add: ident_def\<close>)
  then have up5: "gl_buffer_store (glBufferSubData target 0 n (ga_data arr) gl5) ident
          = Some (take n (ga_data arr) @ drop n (map junk [0..<new]))"
    using b5 by simp
  have b1: "gl_buffer_binding gl1 target = sh_id sh" by (simp add: gl1_def)
  have st1: "gl_buffer_store gl1 (sh_id sh) = Some d0" using store by (simp add: gl1_def)
  have up1: "n \<le> size_on_gpu sh \<Longrightarrow>
       gl_buffer_store (glBufferSubData target 0 n (ga_data arr) gl1) (sh_id sh)
          = Some (take n (ga_data arr) @ drop n d0)"
    using glBufferSubData_store [of gl1 target d0 n "ga_data arr"] store b1 st1 by simp
  show ?A
    unfolding unfold n_def [symmetric]
    using up5 up1 ge len_take store by (cases "n > size_on_gpu sh") simp_all
  show ?B
    unfolding unfold by (simp add: b5 b1)
  show ?C
    unfolding unfold using name store by (simp add: ident_def)
  show ?D
    unfolding unfold n_def [symmetric] by (simp add: gl5_def gl1_def)
qed

text \<open>
  C8, as stated for every growable buffer, fails where the \<^verbatim>\<open>guint\<close> arithmetic of
  the code wraps. First conjuncts: a buffer holds one 2-byte element; \<^verbatim>\<open>advance\<close> by
  \<open>2 ^ 32 - 1\<close> elements wraps the host array's length to 0; the caller writes the
  element \<open>[3, 4]\<close> at the pointer it got; \<^verbatim>\<open>submit\<close> uploads no byte at all and the
  shadow's store keeps what it had. Last conjunct: a host array of \<open>2 ^ 28 - 1\<close>
  elements of 16 bytes makes \<^verbatim>\<open>to_upload\<close> \<open>2 ^ 32 - 16\<close>; the new \<^verbatim>\<open>size_on_gpu\<close>,
  \<^verbatim>\<open>(to_upload & ~0xFFF) + 4 * 4096\<close>, wraps to 12288, the shadow is recreated with
  12288 bytes, and the driver cannot take the upload into it.
\<close>

theorem buffer_wraps_break_upload:
  "gsk_gl_buffer_advance (\<lambda>i. 0)
     \<lparr>buf_buffer = \<lparr>ga_data = [1, 2, 0, 0], ga_len = 1, ga_elt_size = 2\<rparr>,
      buf_shadows = [\<lparr>sh_id = 1, size_on_gpu = 2\<rparr>, \<lparr>sh_id = 2, size_on_gpu = 2\<rparr>],
      buf_target = GL_ARRAY_BUFFER, buf_current = 0\<rparr> 4294967295
   = (2, 1,
      \<lparr>buf_buffer = \<lparr>ga_data = [1, 2, 0, 0], ga_len = 0, ga_elt_size = 2\<rparr>,
       buf_shadows = [\<lparr>sh_id = 1, size_on_gpu = 2\<rparr>, \<lparr>sh_id = 2, size_on_gpu = 2\<rparr>],
       buf_target = GL_ARRAY_BUFFER, buf_current = 0\<rparr>)
   \<and> memcpy_into \<lparr>ga_data = [1, 2, 0, 0], ga_len = 0, ga_elt_size = 2\<rparr> 2 [3, 4]
       = Inr \<lparr>ga_data = [1, 2, 3, 4], ga_len = 0, ga_elt_size = 2\<rparr>
   \<and> (case gsk_gl_buffer_submit (\<lambda>i. 0)
            \<lparr>buf_buffer = \<lparr>ga_data = [1, 2, 3, 4], ga_len = 0, ga_elt_size = 2\<rparr>,
             buf_shadows = [\<lparr>sh_id = 1, size_on_gpu = 2\<rparr>, \<lparr>sh_id = 2, size_on_gpu = 2\<rparr>],
             buf_target = GL_ARRAY_BUFFER, buf_current = 0\<rparr>
            (gl_initial\<lparr>gl_buffer_store := (\<lambda>name. None)(1 := Some [0, 0]),
                       gl_generated := 2\<rparr>) of
         Inl e \<Rightarrow> False
       | Inr (b3, gl') \<Rightarrow>
           last (gl_calls gl') = GlBufferSubData GL_ARRAY_BUFFER 0 []
           \<and> gl_buffer_store gl' (sh_id (buf_shadows b3 ! 0)) = Some [0, 0])
   \<and> (case gsk_gl_buffer_submit (\<lambda>i. 0)
            \<lparr>buf_buffer = \<lparr>ga_data = replicate 4294967280 7, ga_len = 268435455,
                           ga_elt_size = 16\<rparr>,
             buf_shadows = [\<lparr>sh_id = 1, size_on_gpu = 16384\<rparr>,
                            \<lparr>sh_id = 2, size_on_gpu = 16384\<rparr>],
             buf_target = GL_ARRAY_BUFFER, buf_current = 0\<rparr>
            (gl_initial\<lparr>gl_buffer_store := (\<lambda>name. None)(1 := Some (replicate 16384 0)),
                       gl_generated := 2\<rparr>) of
         Inl e \<Rightarrow> False
       | Inr (b3, gl') \<Rightarrow>
           size_on_gpu (buf_shadows b3 ! 0) = 12288
           \<and> (\<exists>d. gl_buffer_store gl' (sh_id (buf_shadows b3 ! 0)) = Some d
                  \<and> length d = 12288))"
  by (simp add: gsk_gl_buffer_advance_def gsk_gl_buffer_submit_def
      gsk_gl_buffer_shadow_submit_def g_array_set_size_def memcpy_into_def guint_def Let_def
      glBindBuffer_def glBufferSubData_def glBufferData_def glDeleteBuffers_def
      glGenBuffers_def gl_log_def gl_initial_def)

text \<open>
  C8, amended: for a growable buffer whose sizes stay inside the \<^verbatim>\<open>guint\<close> range (the
  element count after the advance below \<open>2 ^ 32\<close>, the byte count below
  \<open>2 ^ 32 - 4 * 4096\<close>). Advance the buffer by \<open>n\<close> elements, write \<open>vs\<close> (\<open>n\<close>
  elements' worth of bytes) at the pointer \<^verbatim>\<open>advance\<close> returned, submit. Then \<^verbatim>\<open>advance\<close>
  returned the old length as offset and the write lies inside the storage; the submit's
  last driver call uploads exactly the host array's contents (the elements that were
  there, followed by \<open>vs\<close>) at offset 0 of the buffer bound to the target, which is the
  store of the shadow that was current, and that store now starts with those bytes; the
  host array's length is 0 and its storage has the size it had, the other shadow is
  current, and the next \<^verbatim>\<open>advance\<close> returns offset 0.

  The other hypotheses say that the buffer is well formed, as \<^verbatim>\<open>gsk_gl_buffer_new\<close> and
  \<^verbatim>\<open>submit\<close> leave it: the elements lie inside the storage, \<open>current\<close> indexes a shadow,
  the shadow's buffer object exists with at least the tracked size, and the driver does
  not hand out the name 0.
\<close>

theorem advance_write_submit:
  assumes inv: "ga_len (buf_buffer b) * ga_elt_size (buf_buffer b) \<le> length (ga_data (buf_buffer b))"
    and len_range: "ga_len (buf_buffer b) + n < 2 ^ 32"
    and range: "(ga_len (buf_buffer b) + n) * ga_elt_size (buf_buffer b) < 2 ^ 32 - 4 * 4096"
    and cur: "buf_current b < length (buf_shadows b)"
    and name: "gl_names gl (gl_generated gl) \<noteq> 0"
    and store: "sh_id (buf_shadows b ! buf_current b) \<noteq> 0"
      "gl_buffer_store gl (sh_id (buf_shadows b ! buf_current b)) = Some d0"
      "size_on_gpu (buf_shadows b ! buf_current b) \<le> length d0"
    and vs: "length vs = n * ga_elt_size (buf_buffer b)"
  shows "case gsk_gl_buffer_advance junk b n of (dest, offset, b1) \<Rightarrow>
           offset = ga_len (buf_buffer b) \<and>
           (case memcpy_into (buf_buffer b1) dest vs of
              Inl e \<Rightarrow> False
            | Inr arr \<Rightarrow>
               (case gsk_gl_buffer_submit junk2 (b1\<lparr>buf_buffer := arr\<rparr>) gl of
                  Inl e \<Rightarrow> False
                | Inr (b3, gl') \<Rightarrow>
                    (\<exists>d. gl_buffer_store gl' (sh_id (buf_shadows b3 ! buf_current b)) = Some d
                        \<and> take ((ga_len (buf_buffer b) + n) * ga_elt_size (buf_buffer b)) d
                            = take (ga_len (buf_buffer b) * ga_elt_size (buf_buffer b))
                                (ga_data (buf_buffer b)) @ vs)
                    \<and> gl_buffer_binding gl' (buf_target b) = sh_id (buf_shadows b3 ! buf_current b)
                    \<and> last (gl_calls gl') =
                        GlBufferSubData (buf_target b) 0
                          (take (ga_len (buf_buffer b) * ga_elt_size (buf_buffer b))
                             (ga_data (buf_buffer b)) @ vs)
                    \<and> ga_len (buf_buffer b3) = 0
                    \<and> length (ga_data (buf_buffer b3)) = length (ga_data arr)
                    \<and> buf_current b3 = (buf_current b + 1) mod N_BUFFERS
                    \<and> fst (snd (gsk_gl_buffer_advance junk3 b3 m)) = 0))"
proof -
  define a where "a = buf_buffer b"
  define elt where "elt = ga_elt_size a"
  define len where "len = ga_len a"
  define a1 where "a1 = g_array_set_size junk a (len + n)"
  define d1 where "d1 = ga_data a1"
  define sh where "sh = buf_shadows b ! buf_current b"
  have g1: "guint (len + n) = len + n"
    using len_range by (simp add: guint_id len_def a_def)
  have le: "len * elt \<le> (len + n) * elt" by simp
  have r': "(len + n) * elt < 2 ^ 32 - 4 * 4096"
    using range by (simp add: len_def elt_def a_def)
  have "(2::nat) ^ 32 - 4 * 4096 \<le> 2 ^ 32" by simp
  with r' have "(len + n) * elt < 2 ^ 32" by (rule less_le_trans)
  with le have "len * elt < 2 ^ 32" by (rule le_less_trans)
  then have g2: "guint (len * elt) = len * elt" by (rule guint_id)
  have elt1 [simp]: "ga_elt_size a1 = elt" and len1 [simp]: "ga_len a1 = len + n"
    by (simp_all add: a1_def elt_def)
  have adv: "gsk_gl_buffer_advance junk b n = (len * elt, len, b\<lparr>buf_buffer := a1\<rparr>)"
    unfolding gsk_gl_buffer_advance_def Let_def a_def [symmetric] len_def [symmetric] g1
      a1_def [symmetric] elt1 g2 ..
  have cap: "(len + n) * elt \<le> length d1"
    unfolding d1_def a1_def elt_def
    by (rule set_size_capacity) (use inv in \<open>simp add: a_def\<close>)
  have "take (length (ga_data a)) d1 = ga_data a"
    unfolding d1_def a1_def by (rule set_size_prefix)
  then have "take (len * elt) (take (length (ga_data a)) d1) = take (len * elt) (ga_data a)"
    by simp
  moreover have "len * elt \<le> length (ga_data a)"
    using inv by (simp add: len_def elt_def a_def)
  ultimately have pre: "take (len * elt) d1 = take (len * elt) (ga_data a)"
    by (simp add: min_absorb1)
  define arr where "arr = a1\<lparr>ga_data := take (len * elt) d1 @ vs @ drop (len * elt + length vs) d1\<rparr>"
  have lvs: "length vs = n * elt" using vs by (simp add: elt_def a_def)
  have sum: "len * elt + n * elt = (len + n) * elt" by (simp add: add_mult_distrib)
  have wr: "memcpy_into a1 (len * elt) vs = Inr arr"
    using cap by (simp add: memcpy_into_def arr_def d1_def lvs sum)
  have le1: "len * elt \<le> length d1" using cap by (simp add: add_mult_distrib)
  have arr_f [simp]: "ga_len arr = len + n" "ga_elt_size arr = elt"
    by (simp_all add: arr_def)
  have arr_len: "length (ga_data arr) = length d1"
    using cap le1 by (simp add: arr_def lvs add_mult_distrib)
  have host: "take ((len + n) * elt) (ga_data arr) = take (len * elt) (ga_data a) @ vs"
    using le1 by (simp add: arr_def lvs pre [symmetric] add_mult_distrib)
  have up: "ga_len arr * ga_elt_size arr \<le> length (ga_data arr)"
    using cap by (simp add: arr_len)
  have rg: "ga_len arr * ga_elt_size arr < 2 ^ 32 - 4 * 4096"
    using range by (simp add: len_def elt_def a_def)
  define r where "r = gsk_gl_buffer_shadow_submit junk2 sh (buf_target b) arr gl"
  note S = shadow_submit_uploads [OF up rg name store [folded sh_def], of junk2 "buf_target b",
      folded r_def, unfolded arr_f host]
  define b3 where "b3 = b\<lparr>buf_buffer := arr\<lparr>ga_len := 0\<rparr>,
      buf_shadows := (buf_shadows b)[buf_current b := fst r],
      buf_current := (buf_current b + 1) mod N_BUFFERS\<rparr>"
  have sub: "gsk_gl_buffer_submit junk2 (b\<lparr>buf_buffer := a1, buf_buffer := arr\<rparr>) gl = Inr (b3, snd r)"
    using cur by (simp add: gsk_gl_buffer_submit_def r_def sh_def b3_def split_beta)
  have sh3: "buf_shadows b3 ! buf_current b = fst r"
    using cur by (simp add: b3_def)
  have adv3: "fst (snd (gsk_gl_buffer_advance junk3 b3 m)) = 0"
    by (simp add: gsk_gl_buffer_advance_def Let_def b3_def)
  have fin: "ga_len (buf_buffer b3) = 0" "length (ga_data (buf_buffer b3)) = length (ga_data arr)"
    "buf_current b3 = (buf_current b + 1) mod N_BUFFERS"
    by (simp_all add: b3_def)
  show ?thesis
    unfolding adv a_def [symmetric] len_def [symmetric] elt_def [symmetric]
    using S wr sub sh3 adv3 fin
    by (auto simp add: a_def [symmetric] len_def [symmetric] elt_def [symmetric])
qed

theorem advance_write_submit_witness:
  "case gsk_gl_buffer_advance (\<lambda>i. 0)
          \<lparr>buf_buffer = \<lparr>ga_data = [1, 2, 0, 0], ga_len = 1, ga_elt_size = 2\<rparr>,
           buf_shadows = [\<lparr>sh_id = 1, size_on_gpu = 2\<rparr>, \<lparr>sh_id = 2, size_on_gpu = 2\<rparr>],
           buf_target = GL_ARRAY_BUFFER, buf_current = 0\<rparr> 1 of
     (dest, offset, b1) \<Rightarrow>
       offset = 1 \<and>
       (case memcpy_into (buf_buffer b1) dest [3, 4] of
          Inl e \<Rightarrow> False
        | Inr arr \<Rightarrow>
           (case gsk_gl_buffer_submit (\<lambda>i. 0) (b1\<lparr>buf_buffer := arr\<rparr>)
                   (gl_initial\<lparr>gl_buffer_store := (\<lambda>name. None)(1 := Some [0, 0]),
                              gl_generated := 2\<rparr>) of
              Inl e \<Rightarrow> False
            | Inr (b3, gl') \<Rightarrow>
                (\<exists>d. gl_buffer_store gl' (sh_id (buf_shadows b3 ! 0)) = Some d
                    \<and> take 4 d = [1, 2, 3, 4])
                \<and> gl_buffer_binding gl' GL_ARRAY_BUFFER = sh_id (buf_shadows b3 ! 0)
                \<and> last (gl_calls gl') = GlBufferSubData GL_ARRAY_BUFFER 0 [1, 2, 3, 4]
                \<and> ga_len (buf_buffer b3) = 0
                \<and> length (ga_data (buf_buffer b3)) = length (ga_data arr)
                \<and> buf_current b3 = 1
                \<and> fst (snd (gsk_gl_buffer_advance (\<lambda>i. 0) b3 6)) = 0))"
  using advance_write_submit [where
      b = "\<lparr>buf_buffer = \<lparr>ga_data = [1, 2, 0, 0], ga_len = 1, ga_elt_size = 2\<rparr>,
        buf_shadows = [\<lparr>sh_id = 1, size_on_gpu = 2\<rparr>, \<lparr>sh_id = 2, size_on_gpu = 2\<rparr>],
        buf_target = GL_ARRAY_BUFFER, buf_current = 0\<rparr>"
      and n = 1
      and gl = "gl_initial\<lparr>gl_buffer_store := (\<lambda>name. None)(1 := Some [0, 0]),
                          gl_generated := 2\<rparr>"
      and ?d0.0 = "[0, 0]" and vs = "[3, 4]" and junk = "\<lambda>i. 0" and ?junk2.0 = "\<lambda>i. 0"
      and ?junk3.0 = "\<lambda>i. 0" and m = 6]
  by (auto simp add: gl_initial_def N_BUFFERS_def split: prod.splits sum.splits)
section \<open>Uniform state: allocation, first write, later writes\<close>

lemma guint_mod_align:
  assumes "align = 4 \<or> align = 8"
  shows "guint x mod align = x mod align"
proof -
  have "align dvd (2::nat) ^ 32" using assms by auto
  then show ?thesis unfolding guint_def by (rule mod_mod_cancel)
qed

lemma aligned_up:
  "(len + (4 - len mod 4)) mod 4 = (0::nat)" "(len + (8 - len mod 8)) mod 8 = (0::nat)"
  by presburger+

lemma alloc_uniform_data_Inr:
  obtains pool off where "alloc_uniform_data junk b sz = Inr (pool, off)"
proof -
  define align :: nat where "align = (if sz > 4 then GLIB_SIZEOF_VOID_P else 4)"
  have al: "align = 4 \<or> align = 8" by (simp add: align_def GLIB_SIZEOF_VOID_P_def)
  have up: "(ga_len b + (align - ga_len b mod align)) mod align = 0"
    using al aligned_up by auto
  have "ga_len (if ga_len b mod align \<noteq> 0
             then g_array_set_size junk b (guint (ga_len b + (align - ga_len b mod align)))
             else b) mod align = 0"
    using up by (simp add: set_size_len guint_mod_align [OF al])
  then have "\<exists>pool off. alloc_uniform_data junk b sz = Inr (pool, off)"
    unfolding alloc_uniform_data_def Let_def align_def [symmetric] by simp
  then show ?thesis using that by blast
qed

lemma set_size_cleared_length [simp]:
  "length (g_array_set_size_cleared z xs n) = n \<or> n \<le> length xs"
  "n > length xs \<Longrightarrow> length (g_array_set_size_cleared z xs n) = n"
  by (auto simp add: g_array_set_size_cleared_def)

lemma set_size_cleared_nth:
  "i < length xs \<Longrightarrow> n > length xs \<Longrightarrow> g_array_set_size_cleared z xs n ! i = xs ! i"
  by (simp add: g_array_set_size_cleared_def nth_append)

lemma get_uniform_new_slot:
  assumes p: "0 < program" and c: "array_count < 256"
    and f: "format < GSK_GL_UNIFORM_FORMAT_LAST"
    and l: "location < GL_MAX_UNIFORM_LOCATIONS"
    and fresh: "\<not> has_slot state program location"
    and range: "program < length (program_info state) \<or> program + 1 < 2 ^ 32"
  obtains state' u where
    "get_uniform junk state program format array_count location = Inr (state', u)"
    "has_slot state' program location"
    "slot state' program location =
       \<lparr>ui_changed = True, ui_format = format, ui_array_count = 0, ui_flags = 0,
        ui_offset = u mod 2 ^ 16\<rparr>"
    "n_changed (program_info state' ! program) =
       (if program < length (program_info state)
           \<and> uniform_info (program_info state ! program) \<noteq> None
        then n_changed (program_info state ! program) else 0)"
    "alloc_uniform_data junk (uniform_data state)
       (guint (uniform_sizes ! format * array_count)) = Inr (uniform_data state', u)"
proof -
  define pis where "pis = program_info state"
  define programs1 where "programs1 =
     (if program \<ge> length pis
      then g_array_set_size_cleared zero_program_info pis (guint (program + 1)) else pis)"
  have len1: "program < length programs1"
    using range by (auto simp add: programs1_def pis_def guint_id g_array_set_size_cleared_def)
  define programs2 where "programs2 =
     (if program \<ge> length pis \<or> uniform_info (pis ! program) = None
      then programs1[program := \<lparr>uniform_info = Some [], n_changed = 0\<rparr>] else programs1)"
  have len2: "program < length programs2" using len1 by (simp add: programs2_def)
  define infos where "infos = the (uniform_info (programs2 ! program))"
  define infos1 where "infos1 =
     (if location \<ge> length infos
      then g_array_set_size_cleared zero_uniform_info infos (guint (location + 1)) else infos)"
  have "location + 1 < 2 ^ 32" using l by (simp add: GL_MAX_UNIFORM_LOCATIONS_def)
  then have "guint (location + 1) = location + 1" by (rule guint_id)
  then have gl: "guint (Suc location) = Suc location" by simp
  have linf: "location < length infos1"
    by (auto simp add: infos1_def gl g_array_set_size_cleared_def)
  have ge: "location \<ge> length infos"
  proof (rule ccontr)
    assume "\<not> location \<ge> length infos"
    then have lt: "location < length infos" by simp
    show False
    proof (cases "program \<ge> length pis \<or> uniform_info (pis ! program) = None")
      case True
      then have "programs2 = programs1[program := \<lparr>uniform_info = Some [], n_changed = 0\<rparr>]"
        unfolding programs2_def by (rule if_P)
      then have "infos = []" using len1 by (simp add: infos_def)
      with lt show False by simp
    next
      case False
      then have "programs2 = programs1"
        unfolding programs2_def by (rule if_not_P)
      with False have "infos = the (uniform_info (pis ! program))"
        by (simp add: infos_def programs1_def)
      with False lt fresh show False
        by (auto simp add: has_slot_def pis_def split: option.splits)
    qed
  qed
  have zero: "infos1 ! location = zero_uniform_info"
    using ge by (simp add: infos1_def gl g_array_set_size_cleared_def nth_append)
  obtain pool off where al: "alloc_uniform_data junk (uniform_data state)
      (guint (uniform_sizes ! format * array_count)) = Inr (pool, off)"
    by (rule alloc_uniform_data_Inr)
  have fm: "format mod 32 = format"
    using f by (simp add: GSK_GL_UNIFORM_FORMAT_LAST_def)
  define state' where "state' =
     \<lparr>program_info = programs2
        [program := (programs2 ! program)
           \<lparr>uniform_info := Some (infos1
              [location := (infos1 ! location)
                 \<lparr>ui_changed := True, ui_format := format mod 2 ^ 5,
                  ui_offset := off mod 2 ^ 16, ui_array_count := 0\<rparr>])\<rparr>],
       uniform_data = pool\<rparr>"
  have res: "get_uniform junk state program format array_count location = Inr (state', off)"
    unfolding get_uniform_def Let_def pis_def [symmetric] programs1_def [symmetric]
      programs2_def [symmetric] infos_def [symmetric] infos1_def [symmetric] al
    using p c f l fresh len1 linf by (simp add: state'_def)
  have hs: "has_slot state' program location"
    using len2 linf by (simp add: has_slot_def state'_def)
  have sl: "slot state' program location =
       \<lparr>ui_changed = True, ui_format = format, ui_array_count = 0, ui_flags = 0,
        ui_offset = off mod 2 ^ 16\<rparr>"
    using len2 linf by (simp add: slot_def state'_def zero fm zero_uniform_info_def)
  have nc: "n_changed (program_info state' ! program) =
       (if program < length (program_info state)
           \<and> uniform_info (program_info state ! program) \<noteq> None
        then n_changed (program_info state ! program) else 0)"
    using len1 len2
    by (auto simp add: state'_def programs2_def programs1_def pis_def [symmetric])
  have ud: "alloc_uniform_data junk (uniform_data state)
       (guint (uniform_sizes ! format * array_count)) = Inr (uniform_data state', off)"
    using al by (simp add: state'_def)
  from res hs sl nc ud show ?thesis by (rule that)
qed

lemma get_uniform_established:
  assumes "0 < program" "array_count < 256" "format < GSK_GL_UNIFORM_FORMAT_LAST"
    "location < GL_MAX_UNIFORM_LOCATIONS" "has_slot state program location"
  shows "get_uniform junk state program format array_count location =
     (if format = ui_format (slot state program location)
         \<and> array_count \<le> ui_array_count (slot state program location)
      then Inr (state, ui_offset (slot state program location)) else Inl Critical)"
  using assms by (simp add: get_uniform_def Let_def)

lemma alloc_uniform_data_wf:
  assumes e: "ga_elt_size b = 1" and inv: "ga_len b \<le> length (ga_data b)"
    and room: "ga_len b + 8 + sz < 2 ^ 32"
  obtains pool off where "alloc_uniform_data junk b sz = Inr (pool, off)"
    "ga_len pool = off + sz" "ga_len pool \<le> length (ga_data pool)" "ga_elt_size pool = 1"
    "off \<le> ga_len b + 8"
proof -
  obtain pool off where al: "alloc_uniform_data junk b sz = Inr (pool, off)"
    by (rule alloc_uniform_data_Inr)
  define align :: nat where "align = (if sz > 4 then GLIB_SIZEOF_VOID_P else 4)"
  have al8: "align \<le> 8" by (simp add: align_def GLIB_SIZEOF_VOID_P_def)
  define b1 where "b1 = (if ga_len b mod align \<noteq> 0
      then g_array_set_size junk b (guint (ga_len b + (align - ga_len b mod align))) else b)"
  have pad: "ga_len b + (align - ga_len b mod align) < 2 ^ 32"
  proof -
    have "ga_len b + (align - ga_len b mod align) \<le> ga_len b + 8 + sz" using al8 by simp
    then show ?thesis using room by (rule le_less_trans)
  qed
  have e1: "ga_elt_size b1 = 1" using e by (simp add: b1_def)
  have "align - ga_len b mod align \<le> 8" using al8 by (rule le_trans [OF diff_le_self])
  then have l1: "ga_len b1 \<le> ga_len b + 8" by (simp add: b1_def guint_id [OF pad])
  have inv1: "ga_len b1 \<le> length (ga_data b1)"
  proof (cases "ga_len b mod align \<noteq> 0")
    case True
    have "guint (ga_len b + (align - ga_len b mod align)) * ga_elt_size b
        \<le> length (ga_data (g_array_set_size junk b (guint (ga_len b + (align - ga_len b mod align)))))"
      by (rule set_size_capacity) (use inv e in simp)
    with True show ?thesis by (simp add: b1_def e)
  next
    case False
    with inv show ?thesis by (simp add: b1_def)
  qed
  have "ga_len b1 + sz \<le> ga_len b + 8 + sz" using l1 by simp
  then have r2: "ga_len b1 + sz < 2 ^ 32" using room by (rule le_less_trans)
  have pool: "pool = g_array_set_size junk b1 (guint (ga_len b1 + sz))" and off: "off = ga_len b1"
    using al unfolding alloc_uniform_data_def Let_def align_def [symmetric] b1_def [symmetric]
    by (auto split: if_splits)
  have "guint (ga_len b1 + sz) * ga_elt_size b1 \<le> length (ga_data pool)"
    unfolding pool by (rule set_size_capacity) (use inv1 e1 in simp)
  then have c: "ga_len pool \<le> length (ga_data pool)"
    by (simp add: pool e1)
  have "ga_len pool = off + sz" by (simp add: pool off guint_id [OF r2])
  moreover have "ga_elt_size pool = 1" by (simp add: pool e1)
  moreover have "off \<le> ga_len b + 8" using l1 by (simp add: off)
  ultimately show ?thesis using al c that by blast
qed

lemma slot_update_simps:
  assumes "has_slot state program location"
  shows "has_slot (slot_update state program location f) program location"
    and "slot (slot_update state program location f) program location
           = f (slot state program location)"
    and "n_changed (program_info (slot_update state program location f) ! program)
           = n_changed (program_info state ! program)"
    and "uniform_data (slot_update state program location f) = uniform_data state"
  using assms
  by (auto simp add: has_slot_def slot_update_def slot_def split: option.splits)

lemma has_slot_uniform_data [simp]:
  "has_slot (state\<lparr>uniform_data := d\<rparr>) program location = has_slot state program location"
  "slot (state\<lparr>uniform_data := d\<rparr>) program location = slot state program location"
  by (simp_all add: has_slot_def slot_def)

lemma program_changed_already:
  "ui_changed (slot state program location) \<Longrightarrow> program_changed state program location = state"
  by (simp add: program_changed_def)


lemma set_uniform32_new_slot:
  assumes p: "0 < program" and f: "format < GSK_GL_UNIFORM_FORMAT_LAST"
    and l: "location < GL_MAX_UNIFORM_LOCATIONS"
    and fresh: "\<not> has_slot state program location"
    and range: "program < length (program_info state) \<or> program + 1 < 2 ^ 32"
    and e: "ga_elt_size (uniform_data state) = 1"
    and inv: "ga_len (uniform_data state) \<le> length (ga_data (uniform_data state))"
    and room: "ga_len (uniform_data state) + 160 < 2 ^ 32"
    and sz: "4 \<le> uniform_sizes ! format" "uniform_sizes ! format \<le> 64"
  obtains state' where
    "set_uniform32 format differs junk state program location v = Inr state'"
    "has_slot state' program location"
    "ui_changed (slot state' program location)"
    "ui_array_count (slot state' program location) = 0"
    "ui_format (slot state' program location) = format"
    "n_changed (program_info state' ! program) =
       (if program < length (program_info state)
           \<and> uniform_info (program_info state ! program) \<noteq> None
        then n_changed (program_info state ! program) else 0)"
proof -
  define n where "n = uniform_sizes ! format"
  have "n < 2 ^ 32" using sz by (simp add: n_def)
  then have gn: "guint (uniform_sizes ! format * 1) = n"
    by (simp add: n_def guint_id)
  obtain state1 u where
    res: "get_uniform junk state program format 1 location = Inr (state1, u)"
    and hs: "has_slot state1 program location"
    and sl: "slot state1 program location =
       \<lparr>ui_changed = True, ui_format = format, ui_array_count = 0, ui_flags = 0,
        ui_offset = u mod 2 ^ 16\<rparr>"
    and nc: "n_changed (program_info state1 ! program) =
       (if program < length (program_info state)
           \<and> uniform_info (program_info state ! program) \<noteq> None
        then n_changed (program_info state ! program) else 0)"
    and ud: "alloc_uniform_data junk (uniform_data state) (guint (uniform_sizes ! format * 1))
        = Inr (uniform_data state1, u)"
    using get_uniform_new_slot [OF p _ f l fresh range, of 1 junk] by auto
  have room1: "ga_len (uniform_data state) + 8 + n < 2 ^ 32"
  proof -
    have "ga_len (uniform_data state) + 8 + n \<le> ga_len (uniform_data state) + 160"
      using sz by (simp add: n_def)
    then show ?thesis using room by (rule le_less_trans)
  qed
  obtain pool off where "alloc_uniform_data junk (uniform_data state) n = Inr (pool, off)"
    "ga_len pool = off + n" "ga_len pool \<le> length (ga_data pool)" "ga_elt_size pool = 1"
    "off \<le> ga_len (uniform_data state) + 8"
    by (rule alloc_uniform_data_wf [OF e inv room1])
  with ud [unfolded gn] have
    len1: "ga_len (uniform_data state1) = u + n"
    and inv1: "ga_len (uniform_data state1) \<le> length (ga_data (uniform_data state1))"
    and e1: "ga_elt_size (uniform_data state1) = 1"
    and u8: "u \<le> ga_len (uniform_data state) + 8"
    by simp_all
  have "u + 4 \<le> length (ga_data (uniform_data state1))"
    using len1 inv1 sz by (simp add: n_def)
  then obtain stored where ld: "load32 (uniform_data state1) u = Some stored"
    by (simp add: load32_def)
  have ch1: "ui_changed (slot state1 program location)"
    and ac1: "ui_array_count (slot state1 program location) = 0"
    and fm1: "ui_format (slot state1 program location) = format"
    by (simp_all add: sl)
  have res': "get_uniform junk state program format (Suc 0) location = Inr (state1, u)"
    using res by simp
  show ?thesis
  proof (cases "differs stored v")
    case False
    then have "set_uniform32 format differs junk state program location v = Inr state1"
      using p by (simp add: set_uniform32_def res' ld)
    then show ?thesis using hs ch1 ac1 fm1 nc by (rule that)
  next
    case True
    have room2: "ga_len (uniform_data state1) + 8 + n < 2 ^ 32"
    proof -
      have "ga_len (uniform_data state1) + 8 + n \<le> ga_len (uniform_data state) + 160"
        using sz u8 by (simp add: n_def len1)
      then show ?thesis using room by (rule le_less_trans)
    qed
    obtain pool2 off2 where
      al2: "alloc_uniform_data junk (uniform_data state1) n = Inr (pool2, off2)"
      and len2: "ga_len pool2 = off2 + n"
      and inv2: "ga_len pool2 \<le> length (ga_data pool2)"
      by (rule alloc_uniform_data_wf [OF e1 inv1 room2])
    define state2 where "state2 = slot_update (state1\<lparr>uniform_data := pool2\<rparr>) program location
        (\<lambda>info. info\<lparr>ui_offset := off2 mod 2 ^ 16\<rparr>)"
    have rep: "REPLACE_UNIFORM junk state1 program location format 1 = Inr (state2, off2)"
      by (simp add: REPLACE_UNIFORM_def gn [simplified] al2 state2_def)
    have hs1': "has_slot (state1\<lparr>uniform_data := pool2\<rparr>) program location"
      using hs by simp
    note su = slot_update_simps [OF hs1', of "\<lambda>info. info\<lparr>ui_offset := off2 mod 2 ^ 16\<rparr>",
        folded state2_def]
    have "off2 + 4 \<le> length (ga_data (uniform_data state2))"
      using len2 inv2 sz by (simp add: su n_def)
    then obtain pool3 where st: "store32 (uniform_data state2) off2 v = Some pool3"
      by (simp add: store32_def)
    define state3 where "state3 = state2\<lparr>uniform_data := pool3\<rparr>"
    have hs3: "has_slot state3 program location" using su(1) by (simp add: state3_def)
    have sl3: "slot state3 program location
        = (slot state1 program location)\<lparr>ui_offset := off2 mod 2 ^ 16\<rparr>"
      using su(2) by (simp add: state3_def)
    have ch3: "ui_changed (slot state3 program location)" by (simp add: sl3 ch1)
    have pc: "program_changed state3 program location = state3"
      using ch3 by (rule program_changed_already)
    have rep': "REPLACE_UNIFORM junk state1 program location format (Suc 0) = Inr (state2, off2)"
      using rep by simp
    have "set_uniform32 format differs junk state program location v = Inr state3"
      using p True by (simp add: set_uniform32_def res' ld rep' st state3_def [symmetric] pc)
    moreover have "ui_array_count (slot state3 program location) = 0" by (simp add: sl3 ac1)
    moreover have "ui_format (slot state3 program location) = format" by (simp add: sl3 fm1)
    moreover have "n_changed (program_info state3 ! program) =
       (if program < length (program_info state)
           \<and> uniform_info (program_info state ! program) \<noteq> None
        then n_changed (program_info state ! program) else 0)"
      using su(3) nc by (simp add: state3_def)
    ultimately show ?thesis using hs3 ch3 that by blast
  qed
qed


text \<open>
  A write to an established slot with another format, or to a slot whose stored
  \<^verbatim>\<open>array_count\<close> is 0, takes the \<^verbatim>\<open>g_critical\<close> branch; nothing is changed.
\<close>

lemma set_uniform32_critical:
  assumes "0 < program" "format < GSK_GL_UNIFORM_FORMAT_LAST"
    "location < GL_MAX_UNIFORM_LOCATIONS" "has_slot state program location"
    "format \<noteq> ui_format (slot state program location)
       \<or> ui_array_count (slot state program location) = 0"
  shows "get_uniform junk state program format 1 location = Inl Critical"
    and "set_uniform32 format differs junk state program location v = Inl Critical"
proof -
  show g: "get_uniform junk state program format 1 location = Inl Critical"
    using assms by (auto simp add: get_uniform_established)
  then have "get_uniform junk state program format (Suc 0) location = Inl Critical" by simp
  then show "set_uniform32 format differs junk state program location v = Inl Critical"
    using assms(1) by (simp add: set_uniform32_def)
qed

lemma snapshot_no_count:
  assumes "0 < program" "has_slot state program location"
    "n_changed (program_info state ! program) = 0"
  shows "gsk_gl_uniform_state_snapshot state program callback user_data = Inr (state, user_data)"
  using assms
  by (auto simp add: gsk_gl_uniform_state_snapshot_def has_slot_def split: option.splits)

lemma new_state_facts:
  "\<not> has_slot gsk_gl_uniform_state_new program location"
  "ga_elt_size (uniform_data gsk_gl_uniform_state_new) = 1"
  "ga_len (uniform_data gsk_gl_uniform_state_new) = 0"
  "program_info gsk_gl_uniform_state_new = []"
  by (simp_all add: gsk_gl_uniform_state_new_def has_slot_def g_array_sized_new_def)

lemma sizes_1f_1i:
  "uniform_sizes ! GSK_GL_UNIFORM_FORMAT_1F = 8" "uniform_sizes ! GSK_GL_UNIFORM_FORMAT_1I = 8"
  "GSK_GL_UNIFORM_FORMAT_1F < GSK_GL_UNIFORM_FORMAT_LAST"
  "GSK_GL_UNIFORM_FORMAT_1I < GSK_GL_UNIFORM_FORMAT_LAST"
  by (simp_all add: uniform_sizes_def GSK_GL_UNIFORM_FORMAT_1F_def GSK_GL_UNIFORM_FORMAT_1I_def
      GSK_GL_UNIFORM_FORMAT_LAST_def)

lemma first_set_on_new_state:
  assumes fmt: "format = GSK_GL_UNIFORM_FORMAT_1F \<or> format = GSK_GL_UNIFORM_FORMAT_1I"
  obtains s1 where
    "set_uniform32 format differs junk gsk_gl_uniform_state_new 1 0 v = Inr s1"
    "has_slot s1 1 0" "ui_changed (slot s1 1 0)" "ui_array_count (slot s1 1 0) = 0"
    "ui_format (slot s1 1 0) = format" "n_changed (program_info s1 ! 1) = 0"
proof -
  have f: "format < GSK_GL_UNIFORM_FORMAT_LAST" and sz: "4 \<le> uniform_sizes ! format"
    "uniform_sizes ! format \<le> 64"
    using fmt sizes_1f_1i by auto
  obtain s1 where
    "set_uniform32 format differs junk gsk_gl_uniform_state_new 1 0 v = Inr s1"
    "has_slot s1 1 0" "ui_changed (slot s1 1 0)" "ui_array_count (slot s1 1 0) = 0"
    "ui_format (slot s1 1 0) = format"
    "n_changed (program_info s1 ! 1) =
       (if 1 < length (program_info gsk_gl_uniform_state_new)
           \<and> uniform_info (program_info gsk_gl_uniform_state_new ! 1) \<noteq> None
        then n_changed (program_info gsk_gl_uniform_state_new ! 1) else 0)"
    by (rule set_uniform32_new_slot [where program = 1 and location = 0 and format = format
          and state = gsk_gl_uniform_state_new and junk = junk and differs = differs and v = v])
       (simp_all add: f sz new_state_facts GL_MAX_UNIFORM_LOCATIONS_def)
  then show ?thesis using that by (simp add: new_state_facts)
qed

text \<open>
  C1. The claim fails on the code at the first write of a program. On a new uniform
  state, \<^verbatim>\<open>set1f (1, 0, v)\<close> establishes the slot with its changed flag set, and then:
  a further \<^verbatim>\<open>set1f (1, 0, v)\<close> with the same value does leave the state as it is, but
  by taking the \<^verbatim>\<open>g_critical\<close> branch of \<^verbatim>\<open>get_uniform\<close>; and \<^verbatim>\<open>snapshot (1)\<close> calls
  the callback for no slot at all and returns the state as it is (the closure data comes
  back untouched), so not one change is recorded where the claim says exactly one.
  \<^verbatim>\<open>get_uniform\<close> sets \<^verbatim>\<open>info->changed\<close> itself without counting it in \<^verbatim>\<open>n_changed\<close>,
  \<^verbatim>\<open>program_changed\<close> then finds the flag set and does not count either, and \<^verbatim>\<open>snapshot\<close>
  returns early on \<^verbatim>\<open>n_changed == 0\<close>. The statement holds for every value \<open>v\<close> and for
  whatever the uninitialised pool bytes are.
\<close>

theorem identical_sets_record_nothing:
  "case gsk_gl_uniform_state_set1f junk gsk_gl_uniform_state_new 1 0 v of
     Inl e \<Rightarrow> False
   | Inr s1 \<Rightarrow>
       has_slot s1 1 0 \<and> ui_changed (slot s1 1 0)
       \<and> gsk_gl_uniform_state_set1f junk' s1 1 0 v = Inl Critical
       \<and> gsk_gl_uniform_state_snapshot s1 1 callback user_data = Inr (s1, user_data)"
proof -
  obtain s1 where
    s: "set_uniform32 GSK_GL_UNIFORM_FORMAT_1F float_ne junk gsk_gl_uniform_state_new 1 0 v = Inr s1"
    and h: "has_slot s1 1 0" and c: "ui_changed (slot s1 1 0)"
    and a: "ui_array_count (slot s1 1 0) = 0" and n: "n_changed (program_info s1 ! 1) = 0"
    by (rule first_set_on_new_state [of GSK_GL_UNIFORM_FORMAT_1F float_ne junk v]) simp_all
  have "set_uniform32 GSK_GL_UNIFORM_FORMAT_1F float_ne junk' s1 1 0 v = Inl Critical"
    by (rule set_uniform32_critical(2))
       (use h a in \<open>simp_all add: sizes_1f_1i GL_MAX_UNIFORM_LOCATIONS_def\<close>)
  moreover have "gsk_gl_uniform_state_snapshot s1 1 callback user_data = Inr (s1, user_data)"
    by (rule snapshot_no_count [OF _ h n]) simp
  ultimately show ?thesis
    using s h c by (simp add: gsk_gl_uniform_state_set1f_def)
qed


text \<open>
  C2. The second half of the claim fails on the code. \<^verbatim>\<open>set1i (1, 0, v)\<close> on a new state
  establishes the slot with format \<^verbatim>\<open>1I\<close>, and \<^verbatim>\<open>get_uniform\<close> stores
  \<^verbatim>\<open>array_count = 0\<close> in it, not the count 1 of the call. A later write with the same
  format and the same count 1 therefore fails \<^verbatim>\<open>array_count <= info->array_count\<close> and
  takes the \<^verbatim>\<open>g_critical\<close> branch.
\<close>

theorem same_format_write_is_critical:
  "case gsk_gl_uniform_state_set1i junk gsk_gl_uniform_state_new 1 0 v of
     Inl e \<Rightarrow> False
   | Inr s1 \<Rightarrow>
       has_slot s1 1 0
       \<and> ui_format (slot s1 1 0) = GSK_GL_UNIFORM_FORMAT_1I
       \<and> ui_array_count (slot s1 1 0) = 0
       \<and> get_uniform junk' s1 1 GSK_GL_UNIFORM_FORMAT_1I 1 0 = Inl Critical
       \<and> gsk_gl_uniform_state_set1i junk' s1 1 0 w = Inl Critical"
proof -
  obtain s1 where
    s: "set_uniform32 GSK_GL_UNIFORM_FORMAT_1I (\<lambda>stored value0. stored \<noteq> value0) junk
          gsk_gl_uniform_state_new 1 0 v = Inr s1"
    and h: "has_slot s1 1 0" and a: "ui_array_count (slot s1 1 0) = 0"
    and f: "ui_format (slot s1 1 0) = GSK_GL_UNIFORM_FORMAT_1I"
    by (rule first_set_on_new_state [of GSK_GL_UNIFORM_FORMAT_1I
          "\<lambda>stored value0. stored \<noteq> value0" junk v]) simp_all
  have "get_uniform junk' s1 1 GSK_GL_UNIFORM_FORMAT_1I 1 0 = Inl Critical"
    by (rule set_uniform32_critical(1))
       (use h a in \<open>simp_all add: sizes_1f_1i GL_MAX_UNIFORM_LOCATIONS_def\<close>)
  moreover have "set_uniform32 GSK_GL_UNIFORM_FORMAT_1I (\<lambda>stored value0. stored \<noteq> value0) junk'
      s1 1 0 w = Inl Critical"
    by (rule set_uniform32_critical(2))
       (use h a in \<open>simp_all add: sizes_1f_1i GL_MAX_UNIFORM_LOCATIONS_def\<close>)
  ultimately show ?thesis
    using s h a f by (simp add: gsk_gl_uniform_state_set1i_def)
qed

text \<open>
  C3. The claim fails on the code: after \<^verbatim>\<open>set1i (1, 0, v)\<close> on a new state the slot
  (1, 0) has its changed flag set while the program's \<^verbatim>\<open>n_changed\<close> is 0, and
  \<^verbatim>\<open>snapshot (1, callback)\<close> returns at its \<^verbatim>\<open>n_changed == 0\<close> test: no callback, no
  flag cleared.
\<close>

theorem snapshot_misses_changed_slot:
  "case gsk_gl_uniform_state_set1i junk gsk_gl_uniform_state_new 1 0 v of
     Inl e \<Rightarrow> False
   | Inr s1 \<Rightarrow>
       has_slot s1 1 0 \<and> ui_changed (slot s1 1 0)
       \<and> n_changed (program_info s1 ! 1) = 0
       \<and> gsk_gl_uniform_state_snapshot s1 1 callback user_data = Inr (s1, user_data)"
proof -
  obtain s1 where
    s: "set_uniform32 GSK_GL_UNIFORM_FORMAT_1I (\<lambda>stored value0. stored \<noteq> value0) junk
          gsk_gl_uniform_state_new 1 0 v = Inr s1"
    and h: "has_slot s1 1 0" and c: "ui_changed (slot s1 1 0)"
    and n: "n_changed (program_info s1 ! 1) = 0"
    by (rule first_set_on_new_state [of GSK_GL_UNIFORM_FORMAT_1I
          "\<lambda>stored value0. stored \<noteq> value0" junk v]) simp_all
  have "gsk_gl_uniform_state_snapshot s1 1 callback user_data = Inr (s1, user_data)"
    by (rule snapshot_no_count [OF _ h n]) simp
  then show ?thesis
    using s h c n by (simp add: gsk_gl_uniform_state_set1i_def)
qed

lemma snapshot_slots_result:
  "snapshot_slots callback i infos user_data =
     (map (\<lambda>info. if ui_changed info then info\<lparr>ui_changed := False, ui_flags := 0\<rparr> else info) infos,
      fold (\<lambda>(k, info). callback info k)
        (filter (\<lambda>(k, info). ui_changed info) (zip [i ..< i + length infos] infos)) user_data)"
proof (induction infos arbitrary: i user_data)
  case Nil
  show ?case by simp
next
  case (Cons info infos)
  have "[i ..< Suc (i + length infos)] = i # [Suc i ..< Suc (i + length infos)]"
    by (rule upt_conv_Cons) simp
  then show ?case by (simp add: Cons.IH)
qed









section \<open>Command queue: the draw bracket and texture creation\<close>

lemma new_queue_fields:
  "in_draw (fst (gsk_gl_command_queue_new junk use_es gl)) = False"
  "batches (fst (gsk_gl_command_queue_new junk use_es gl)) = []"
  "max_texture_size (fst (gsk_gl_command_queue_new junk use_es gl)) = - 1"
  "attachments (fst (gsk_gl_command_queue_new junk use_es gl)) = gsk_gl_attachment_state_new"
  "uniforms (fst (gsk_gl_command_queue_new junk use_es gl)) = gsk_gl_uniform_state_new"
  by (simp_all add: gsk_gl_command_queue_new_def split_beta)

lemma begin_frame_fields:
  "in_draw (fst (gsk_gl_command_queue_begin_frame self gl)) = in_draw self"
  "batches (fst (gsk_gl_command_queue_begin_frame self gl)) = batches self"
  "max_texture_size (fst (gsk_gl_command_queue_begin_frame self gl)) = max_texture_size self"
  "attachments (fst (gsk_gl_command_queue_begin_frame self gl)) = attachments self"
  "uniforms (fst (gsk_gl_command_queue_begin_frame self gl)) = uniforms self"
  by (simp_all add: gsk_gl_command_queue_begin_frame_def)

text \<open>No function of the queue sets \<^verbatim>\<open>in_draw\<close>: whatever returns leaves it clear or as it was.\<close>

lemma begin_draw_result:
  assumes "\<not> in_draw self" "length (batches self) + 1 < 2 ^ 32"
  shows "\<exists>self'. gsk_gl_command_queue_begin_draw self program = Inr self'
           \<and> \<not> in_draw self'
           \<and> length (batches self') = length (batches self) + 1
           \<and> batch_kind (last (batches self')) = GSK_GL_COMMAND_KIND_DRAW
           \<and> draw_framebuffer (batch_draw (last (batches self'))) = 0
           \<and> draw_vbo_count (batch_draw (last (batches self'))) = 0
           \<and> attachments self' = attachments self \<and> uniforms self' = uniforms self
           \<and> vertices self' = vertices self
           \<and> max_texture_size self' = max_texture_size self"
proof -
  have g: "guint (Suc (length (batches self))) = Suc (length (batches self))"
    using assms(2) by (simp add: guint_id)
  show ?thesis
    using assms(1)
    by (simp add: gsk_gl_command_queue_begin_draw_def Let_def g g_array_set_size_cleared_def
        last_conv_nth)
qed

lemma in_draw_never_set:
  "gsk_gl_command_queue_begin_draw self program = Inr self' \<Longrightarrow> in_draw self' = in_draw self"
  "gsk_gl_command_queue_end_draw self = Inr self' \<Longrightarrow> \<not> in_draw self'"
  "in_draw (fst (gsk_gl_command_queue_begin_frame self gl)) = in_draw self"
  "in_draw (gsk_gl_command_queue_bind_framebuffer self framebuffer) = in_draw self"
  "in_draw (gsk_gl_command_queue_save self) = in_draw self"
  by (auto simp add: gsk_gl_command_queue_begin_draw_def gsk_gl_command_queue_end_draw_def
      gsk_gl_command_queue_begin_frame_def gsk_gl_command_queue_bind_framebuffer_def
      gsk_gl_command_queue_save_def Let_def
      split: if_splits sum.splits prod.splits)

text \<open>
  Outside a bracket (\<^verbatim>\<open>in_draw\<close> clear) \<^verbatim>\<open>add_vertices\<close> and \<^verbatim>\<open>end_draw\<close> fail their
  \<^verbatim>\<open>g_return_if_fail\<close> and change nothing.
\<close>

lemma outside_bracket_refused:
  "\<not> in_draw self \<Longrightarrow> gsk_gl_command_queue_add_vertices junk self quad = Inl Critical"
  "\<not> in_draw self \<Longrightarrow> gsk_gl_command_queue_end_draw self = Inl Critical"
  by (simp_all add: gsk_gl_command_queue_add_vertices_def gsk_gl_command_queue_end_draw_def)

text \<open>
  C5. The second half of the claim fails on the code. On a new queue, \<^verbatim>\<open>begin_draw\<close>
  appends the draw batch but leaves \<^verbatim>\<open>in_draw\<close> clear, so the \<^verbatim>\<open>add_vertices\<close> that
  follows it fails \<^verbatim>\<open>g_return_val_if_fail (self->in_draw == TRUE, NULL)\<close>: the queue is
  not inside a draw bracket, no vertex is appended and no vertex count grows. The other
  revision of \<^verbatim>\<open>begin_draw\<close> among the sources ends with \<^verbatim>\<open>self->in_draw = TRUE\<close>.
\<close>

theorem add_vertices_after_begin_draw_refused:
  "case gsk_gl_command_queue_begin_draw (fst (gsk_gl_command_queue_new junk use_es gl)) program of
     Inl e \<Rightarrow> False
   | Inr self \<Rightarrow>
       length (batches self) = 1
       \<and> batch_kind (last (batches self)) = GSK_GL_COMMAND_KIND_DRAW
       \<and> \<not> in_draw self
       \<and> gsk_gl_command_queue_add_vertices junk' self quad = Inl Critical"
proof -
  let ?q = "fst (gsk_gl_command_queue_new junk use_es gl)"
  obtain self where "gsk_gl_command_queue_begin_draw ?q program = Inr self"
    "\<not> in_draw self" "length (batches self) = length (batches ?q) + 1"
    "batch_kind (last (batches self)) = GSK_GL_COMMAND_KIND_DRAW"
    using begin_draw_result [of ?q program] by (auto simp add: new_queue_fields)
  then show ?thesis by (simp add: new_queue_fields outside_bracket_refused)
qed

lemma end_draw_binds_changed:
  "bt_changed a \<Longrightarrow> end_draw_binds (a # ts) binds n =
     (case end_draw_binds ts
        (binds @ [\<lparr>cb_texture = bt_texture a mod 2 ^ 5, cb_id = bt_id a mod 2 ^ 27\<rparr>])
        ((n + 1) mod 2 ^ 5) of (r, b, c) \<Rightarrow> (a\<lparr>bt_changed := False\<rparr> # r, b, c))"
  by (simp del: One_nat_def)

lemma end_draw_binds_unchanged:
  "\<not> bt_changed a \<Longrightarrow> end_draw_binds (a # ts) binds n =
     (case end_draw_binds ts binds n of (r, b, c) \<Rightarrow> (a # r, b, c))"
  by simp

text \<open>
  The loop over the texture units clears every changed flag and appends one bind for each
  unit that had it set, in unit order.
\<close>

lemma end_draw_binds_result:
  "end_draw_binds ts binds n =
     (map (\<lambda>t. t\<lparr>bt_changed := False\<rparr>) ts,
      binds @ map (\<lambda>t. \<lparr>cb_texture = bt_texture t mod 2 ^ 5, cb_id = bt_id t mod 2 ^ 27\<rparr>)
                (filter bt_changed ts),
      snd (snd (end_draw_binds ts binds n)))"
proof (induction ts arbitrary: binds n)
  case Nil
  show ?case by simp
next
  case (Cons a ts)
  show ?case
  proof (cases "bt_changed a")
    case True
    show ?thesis
      unfolding end_draw_binds_changed [OF True]
      by (subst Cons.IH) (simp add: True split: prod.splits)
  next
    case False
    have a: "a\<lparr>bt_changed := False\<rparr> = a" using False by (cases a) simp
    show ?thesis
      unfolding end_draw_binds_unchanged [OF False]
      by (subst Cons.IH) (simp add: False a split: prod.splits)
  qed
qed

text \<open>
  Whenever \<^verbatim>\<open>end_draw\<close> gets past its guards, so only with \<^verbatim>\<open>in_draw\<close> set, it stamps the
  last batch's framebuffer from the attachment state, clears the framebuffer's and the
  units' changed flags, appends the binds of the changed units, takes the uniforms from
  the uniform-state snapshot of the batch's program and closes the bracket.
\<close>

lemma end_draw_inside_bracket:
  assumes "gsk_gl_command_queue_end_draw self = Inr self'"
  shows "in_draw self \<and> batches self \<noteq> []
     \<and> length (batches self') = length (batches self)
     \<and> draw_framebuffer (batch_draw (last (batches self'))) = bf_id (fbo (attachments self))
     \<and> \<not> bf_changed (fbo (attachments self'))
     \<and> textures (attachments self')
         = map (\<lambda>t. t\<lparr>bt_changed := False\<rparr>) (textures (attachments self))
     \<and> batch_binds self' = batch_binds self
          @ map (\<lambda>t. \<lparr>cb_texture = bt_texture t mod 2 ^ 5, cb_id = bt_id t mod 2 ^ 27\<rparr>)
              (filter bt_changed (textures (attachments self)))
     \<and> gsk_gl_uniform_state_snapshot (uniforms self) (batch_program (last (batches self)))
           gsk_gl_command_queue_uniform_snapshot_cb (batch_uniforms self)
         = Inr (uniforms self', batch_uniforms self')
     \<and> \<not> in_draw self'"
  using assms
  unfolding gsk_gl_command_queue_end_draw_def Let_def
  apply (subst (asm) end_draw_binds_result)
  apply (auto simp add: last_conv_nth nth_list_update split: if_splits sum.splits prod.splits)
  done

text \<open>
  C4. The claim fails on the code for the recording sequence \<^verbatim>\<open>begin_frame\<close>,
  \<^verbatim>\<open>begin_draw\<close>, \<^verbatim>\<open>bind_framebuffer (3)\<close>, \<^verbatim>\<open>end_draw\<close> on a new queue: the attachment
  state has framebuffer 3 with its changed flag set, the open batch has framebuffer 0,
  and \<^verbatim>\<open>end_draw\<close> fails \<^verbatim>\<open>g_return_if_fail (self->in_draw == TRUE)\<close>, so it stamps
  nothing, snapshots nothing and records no bind. The cause is the one of C5:
  \<^verbatim>\<open>begin_draw\<close> never sets \<^verbatim>\<open>in_draw\<close>.
\<close>

theorem end_draw_after_begin_draw_refused:
  "case gsk_gl_command_queue_begin_draw
          (fst (gsk_gl_command_queue_begin_frame
                  (fst (gsk_gl_command_queue_new junk use_es gl)) gl')) program of
     Inl e \<Rightarrow> False
   | Inr self \<Rightarrow>
       bf_id (fbo (attachments (gsk_gl_command_queue_bind_framebuffer self 3))) = 3
       \<and> bf_changed (fbo (attachments (gsk_gl_command_queue_bind_framebuffer self 3)))
       \<and> draw_framebuffer (batch_draw (last (batches self))) = 0
       \<and> gsk_gl_command_queue_end_draw (gsk_gl_command_queue_bind_framebuffer self 3)
           = Inl Critical"
proof -
  let ?q = "fst (gsk_gl_command_queue_begin_frame
                  (fst (gsk_gl_command_queue_new junk use_es gl)) gl')"
  obtain self where "gsk_gl_command_queue_begin_draw ?q program = Inr self"
    "\<not> in_draw self" "draw_framebuffer (batch_draw (last (batches self))) = 0"
    "attachments self = attachments ?q"
    using begin_draw_result [of ?q program]
    by (auto simp add: new_queue_fields begin_frame_fields)
  moreover have "\<not> in_draw (gsk_gl_command_queue_bind_framebuffer self 3)"
    using calculation(2) by (simp add: in_draw_never_set)
  ultimately show ?thesis
    by (simp add: outside_bracket_refused new_queue_fields begin_frame_fields
        gsk_gl_command_queue_bind_framebuffer_def gsk_gl_attachment_state_bind_framebuffer_def
        gsk_gl_attachment_state_new_def)
qed




end
